theory Spec2Isabelle
  imports Complex_Main
begin

section \<open>Data model\<close>

text \<open>
  The store is a document database with four collections. A collection is the list of its
  documents; an ObjectId is the string that \<^verbatim>\<open>String(id)\<close> yields. JavaScript numbers
  that hold money are modelled as exact rationals (the binary rounding of IEEE doubles is
  outside the model), numbers that hold counts (stock, quantities) as integers. The
  \<^verbatim>\<open>createdAt\<close>/\<^verbatim>\<open>updatedAt\<close> timestamps of the schemas are left out.
\<close>

type_synonym objectId = string

record product =
  p_id :: objectId
  p_title :: string
  p_slug :: string
  p_description :: "string option"
  p_price :: rat
  p_stock :: int
  p_images :: "string list"
  p_category :: "objectId option"
  p_subcategory :: "objectId option"
  p_isActive :: bool

record category =
  cat_id :: objectId
  cat_name :: string
  cat_slug :: string
  cat_parent :: "objectId option"
  cat_isActive :: bool

record cartItem =
  ci_product :: objectId
  ci_qty :: int

record cart =
  cart_id :: objectId
  cart_user :: objectId
  cart_items :: "cartItem list"

datatype orderStatus = Pending | Paid | Shipped | Delivered

datatype paymentStatus = Unpaid | PaymentPaid | Refunded

record orderItem =
  oi_product :: objectId
  oi_title :: string
  oi_slug :: string
  oi_price :: rat
  oi_qty :: int
  oi_lineTotal :: rat

record shippingAddress =
  fullName :: string
  phone :: string
  address1 :: string
  address2 :: "string option"
  city :: string
  state :: "string option"
  postalCode :: string
  country :: string

record order =
  o_id :: objectId
  o_user :: objectId
  o_items :: "orderItem list"
  o_subtotal :: rat
  o_shippingFee :: rat
  o_tax :: rat
  o_grandTotal :: rat
  o_shippingAddress :: "shippingAddress option"
  o_paymentMethod :: string
  o_paymentStatus :: paymentStatus
  o_status :: orderStatus
  o_cancelled :: bool
  o_cancelledAt :: "int option"

record db =
  products :: "product list"
  categories :: "category list"
  carts :: "cart list"
  orders :: "order list"

text \<open>\<^verbatim>\<open>req.user\<close>: the token payload that \<^verbatim>\<open>requireAuth\<close> stores on the request.\<close>

record user =
  u_id :: objectId
  u_role :: string

subsection \<open>Requests, responses and thrown errors\<close>

datatype json =
  JNull
| JBool bool
| JNum rat
| JStr string
| JArr "json list"
| JObj "(string \<times> json) list"

datatype issueCode = invalid_type | too_small | invalid_enum_value

type_synonym zodIssue = "issueCode \<times> string list"

text \<open>
  A thrown JavaScript error: a plain \<^verbatim>\<open>Error\<close> with its message and its
  \<^verbatim>\<open>status\<close> property when one was set, or the \<^verbatim>\<open>ZodError\<close> that
  \<^verbatim>\<open>schema.parse\<close> throws, which carries the issues and has no \<^verbatim>\<open>status\<close>.
\<close>

datatype jsError =
  Error string "nat option"
| ZodError "zodIssue list"

datatype errMessage = Text string | IssuesText "zodIssue list"

datatype body =
  Message string
| OrderBody order
| ItemBody "product option"
| OkBody
| ErrorBody nat errMessage "string option"

datatype response = Response (code: nat) (payload: body)

datatype outcome = Sent response | Thrown jsError

text \<open>
  Failures of the store itself (a lost connection, a write conflict): for each store call
  of a transaction the message of the error with which the call rejects, if it does.
\<close>

record faults =
  updateOne_fault :: "nat \<Rightarrow> string option"
  create_fault :: "string option"
  save_fault :: "string option"
  commit_fault :: "string option"

definition no_faults :: faults where
  "no_faults = \<lparr>updateOne_fault = (\<lambda>_. None), create_fault = None,
     save_fault = None, commit_fault = None\<rparr>"

section \<open>Collection operations\<close>

text \<open>
  \<^verbatim>\<open>updateOne(filter, update)\<close> changes the first document that matches the filter
  and reports how many documents it modified. The schemas carry \<^verbatim>\<open>timestamps\<close>, so
  a matched document is always modified.
\<close>

fun updateOne :: "('a \<Rightarrow> bool) \<Rightarrow> ('a \<Rightarrow> 'a) \<Rightarrow> 'a list \<Rightarrow> nat \<times> 'a list" where
  "updateOne P f [] = (0, [])"
| "updateOne P f (d # ds) =
     (if P d then (1, f d # ds)
      else (case updateOne P f ds of (n, ds') \<Rightarrow> (n, d # ds')))"

definition Product_findById :: "product list \<Rightarrow> objectId \<Rightarrow> product option" where
  "Product_findById ps i = find (\<lambda>p. p_id p = i) ps"

definition Order_findById :: "order list \<Rightarrow> objectId \<Rightarrow> order option" where
  "Order_findById os i = find (\<lambda>ord. o_id ord = i) os"

definition Cart_findOne :: "cart list \<Rightarrow> objectId \<Rightarrow> cart option" where
  "Cart_findOne cs uid = find (\<lambda>c. cart_user c = uid) cs"

text \<open>\<^verbatim>\<open>populate('items.product')\<close>: each reference becomes the product document, or
  null when there is none.\<close>

type_synonym populatedItem = "product option \<times> int"

definition populate :: "product list \<Rightarrow> cart \<Rightarrow> populatedItem list" where
  "populate ps c = map (\<lambda>it. (Product_findById ps (ci_product it), ci_qty it)) (cart_items c)"

section \<open>Order controller\<close>

subsection \<open>Helpers\<close>

definition calcShipping :: "rat \<Rightarrow> rat" where
  "calcShipping subtotal = 0"

definition calcTax :: "rat \<Rightarrow> rat" where
  "calcTax subtotal = 0"

text \<open>
  \<^verbatim>\<open>+(x).toFixed(2)\<close>: \<^verbatim>\<open>toFixed\<close> takes the integer \<open>n\<close> with \<open>n / 100\<close> closest to
  \<open>\<bar>x\<bar>\<close>, the larger one on a tie, keeps the sign, and prints \<open>x\<close> itself from
  \<open>10\<^sup>2\<^sup>1\<close> on.
\<close>

definition round2 :: "rat \<Rightarrow> rat" where
  "round2 x =
     (if 10 ^ 21 \<le> \<bar>x\<bar> then x
      else sgn x * (of_int \<lfloor>\<bar>x\<bar> * 100 + 1 / 2\<rfloor> / 100))"

subsection \<open>Request schemas\<close>

text \<open>
  The part of zod that the schemas use. A JSON object lists its properties; a property
  that is absent reads as undefined (\<open>None\<close>). An optional field accepts undefined but
  not null. All issues are collected, in schema order, and \<^verbatim>\<open>parse\<close> throws a
  \<^verbatim>\<open>ZodError\<close> holding them when there is one. String lengths are counted in
  characters of the model's strings.
\<close>

fun zString :: "nat \<Rightarrow> string list \<Rightarrow> json option \<Rightarrow> zodIssue list + string" where
  "zString n pth (Some (JStr s)) = (if length s < n then Inl [(too_small, pth)] else Inr s)"
| "zString n pth _ = Inl [(invalid_type, pth)]"

fun zStringOptional :: "string list \<Rightarrow> json option \<Rightarrow> zodIssue list + string option" where
  "zStringOptional pth None = Inr None"
| "zStringOptional pth (Some (JStr s)) = Inr (Some s)"
| "zStringOptional pth (Some _) = Inl [(invalid_type, pth)]"

definition issuesOf :: "zodIssue list + 'a \<Rightarrow> zodIssue list" where
  "issuesOf r = (case r of Inl issues \<Rightarrow> issues | Inr _ \<Rightarrow> [])"

definition zShippingAddress :: "json option \<Rightarrow> zodIssue list + shippingAddress option" where
  "zShippingAddress j =
     (case j of
        None \<Rightarrow> Inr None
      | Some (JObj a) \<Rightarrow>
          (let f1 = zString 2 [''shippingAddress'', ''fullName''] (map_of a ''fullName'');
               f2 = zString 6 [''shippingAddress'', ''phone''] (map_of a ''phone'');
               f3 = zString 3 [''shippingAddress'', ''address1''] (map_of a ''address1'');
               f4 = zStringOptional [''shippingAddress'', ''address2''] (map_of a ''address2'');
               f5 = zString 2 [''shippingAddress'', ''city''] (map_of a ''city'');
               f6 = zStringOptional [''shippingAddress'', ''state''] (map_of a ''state'');
               f7 = zString 3 [''shippingAddress'', ''postalCode''] (map_of a ''postalCode'');
               f8 = zString 2 [''shippingAddress'', ''country''] (map_of a ''country'');
               issues = issuesOf f1 @ issuesOf f2 @ issuesOf f3 @ issuesOf f4 @ issuesOf f5
                 @ issuesOf f6 @ issuesOf f7 @ issuesOf f8
           in if issues = []
              then Inr (Some \<lparr>fullName = projr f1, phone = projr f2, address1 = projr f3,
                     address2 = projr f4, city = projr f5, state = projr f6,
                     postalCode = projr f7, country = projr f8\<rparr>)
              else Inl issues)
      | Some _ \<Rightarrow> Inl [(invalid_type, [''shippingAddress''])])"

definition zPaymentMethod :: "json option \<Rightarrow> zodIssue list + string option" where
  "zPaymentMethod j =
     (case j of
        None \<Rightarrow> Inr None
      | Some (JStr s) \<Rightarrow>
          (if s = ''cod'' then Inr (Some s) else Inl [(invalid_enum_value, [''paymentMethod''])])
      | Some _ \<Rightarrow> Inl [(invalid_type, [''paymentMethod''])])"

record createOrderBody =
  b_shippingAddress :: "shippingAddress option"
  b_paymentMethod :: "string option"

definition createOrderSchema_parse :: "json \<Rightarrow> zodIssue list + createOrderBody" where
  "createOrderSchema_parse reqBody =
     (case reqBody of
        JObj kv \<Rightarrow>
          (let a = zShippingAddress (map_of kv ''shippingAddress'');
               m = zPaymentMethod (map_of kv ''paymentMethod'');
               issues = issuesOf a @ issuesOf m
           in if issues = []
              then Inr \<lparr>b_shippingAddress = projr a, b_paymentMethod = projr m\<rparr>
              else Inl issues)
      | _ \<Rightarrow> Inl [(invalid_type, [])])"

definition zStatus :: "json option \<Rightarrow> zodIssue list + orderStatus option" where
  "zStatus j =
     (case j of
        None \<Rightarrow> Inr None
      | Some (JStr s) \<Rightarrow>
          (if s = ''pending'' then Inr (Some Pending)
           else if s = ''paid'' then Inr (Some Paid)
           else if s = ''shipped'' then Inr (Some Shipped)
           else if s = ''delivered'' then Inr (Some Delivered)
           else Inl [(invalid_enum_value, [''status''])])
      | Some _ \<Rightarrow> Inl [(invalid_type, [''status''])])"

definition zPaymentStatus :: "json option \<Rightarrow> zodIssue list + paymentStatus option" where
  "zPaymentStatus j =
     (case j of
        None \<Rightarrow> Inr None
      | Some (JStr s) \<Rightarrow>
          (if s = ''unpaid'' then Inr (Some Unpaid)
           else if s = ''paid'' then Inr (Some PaymentPaid)
           else if s = ''refunded'' then Inr (Some Refunded)
           else Inl [(invalid_enum_value, [''paymentStatus''])])
      | Some _ \<Rightarrow> Inl [(invalid_type, [''paymentStatus''])])"

record updateStatusData =
  d_status :: "orderStatus option"
  d_paymentStatus :: "paymentStatus option"

definition updateStatusSchema_parse :: "json \<Rightarrow> zodIssue list + updateStatusData" where
  "updateStatusSchema_parse reqBody =
     (case reqBody of
        JObj kv \<Rightarrow>
          (let s = zStatus (map_of kv ''status'');
               p = zPaymentStatus (map_of kv ''paymentStatus'');
               issues = issuesOf s @ issuesOf p
           in if issues = []
              then Inr \<lparr>d_status = projr s, d_paymentStatus = projr p\<rparr>
              else Inl issues)
      | _ \<Rightarrow> Inl [(invalid_type, [])])"

subsection \<open>createOrder\<close>

text \<open>The first loop of \<^verbatim>\<open>createOrder\<close>: it checks each populated cart line and
  builds the snapshot and the running subtotal, or answers 400 at the first line that fails.\<close>

fun buildSnapshot ::
  "populatedItem list \<Rightarrow> rat \<Rightarrow> orderItem list \<Rightarrow> response + rat \<times> orderItem list" where
  "buildSnapshot [] subtotal itemsSnapshot = Inr (subtotal, itemsSnapshot)"
| "buildSnapshot ((None, qty) # its) subtotal itemsSnapshot =
     Inl (Response 400 (Message ''Product unavailable in cart''))"
| "buildSnapshot ((Some p, qty) # its) subtotal itemsSnapshot =
     (if \<not> p_isActive p then Inl (Response 400 (Message ''Product unavailable in cart''))
      else if p_stock p < qty
        then Inl (Response 400 (Message (''Insufficient stock for '' @ p_slug p)))
      else (let lineTotal = round2 (p_price p * of_int qty)
            in buildSnapshot its (subtotal + lineTotal)
                 (itemsSnapshot @ [\<lparr>oi_product = p_id p, oi_title = p_title p,
                    oi_slug = p_slug p, oi_price = p_price p, oi_qty = qty,
                    oi_lineTotal = lineTotal\<rparr>])))"

text \<open>Lines 80 to 83 and the document handed to \<^verbatim>\<open>Order.create\<close>; the schema
  defaults fill \<^verbatim>\<open>cancelled\<close> and \<^verbatim>\<open>cancelledAt\<close>.\<close>

definition orderDraft ::
  "objectId \<Rightarrow> user \<Rightarrow> createOrderBody \<Rightarrow> rat \<Rightarrow> orderItem list \<Rightarrow> order" where
  "orderDraft newId usr body subtotal0 itemsSnapshot =
     (let subtotal = round2 subtotal0;
          shippingFee = calcShipping subtotal;
          tax = calcTax subtotal;
          grandTotal = round2 (subtotal + shippingFee + tax)
      in \<lparr>o_id = newId, o_user = u_id usr, o_items = itemsSnapshot, o_subtotal = subtotal,
           o_shippingFee = shippingFee, o_tax = tax, o_grandTotal = grandTotal,
           o_shippingAddress = b_shippingAddress body,
           o_paymentMethod =
             (case b_paymentMethod body of None \<Rightarrow> ''cod''
              | Some m \<Rightarrow> if m = [] then ''cod'' else m),
           o_paymentStatus = Unpaid, o_status = Pending,
           o_cancelled = False, o_cancelledAt = None\<rparr>)"

text \<open>
  The conditional stock decrement of each cart line, inside the transaction. The \<open>k\<close>-th
  call may reject with a store error; a line whose product is null cannot be dereferenced.
\<close>

definition nullProductMessage :: string where
  "nullProductMessage = ''Cannot read properties of null''"

fun decrementStock ::
  "faults \<Rightarrow> nat \<Rightarrow> populatedItem list \<Rightarrow> product list \<Rightarrow> string + product list" where
  "decrementStock fl k [] ps = Inr ps"
| "decrementStock fl k ((None, qty) # its) ps = Inl nullProductMessage"
| "decrementStock fl k ((Some p, qty) # its) ps =
     (case updateOne_fault fl k of
        Some m \<Rightarrow> Inl m
      | None \<Rightarrow>
          (case updateOne (\<lambda>d. p_id d = p_id p \<and> qty \<le> p_stock d)
                  (\<lambda>d. d\<lparr>p_stock := p_stock d - qty\<rparr>) ps of
             (modifiedCount, ps') \<Rightarrow>
               if modifiedCount \<noteq> 1 then Inl (''Stock update failed for '' @ p_slug p)
               else decrementStock fl (Suc k) its ps'))"

text \<open>
  \<^verbatim>\<open>Order.create\<close> runs the schema validators (a line item needs a title, a slug and a
  quantity of at least 1) and the store refuses a second document with the same
  \<^verbatim>\<open>_id\<close>. The messages of these library errors are abbreviated.
\<close>

definition orderItem_valid :: "orderItem \<Rightarrow> bool" where
  "orderItem_valid it \<longleftrightarrow> oi_title it \<noteq> [] \<and> oi_slug it \<noteq> [] \<and> 1 \<le> oi_qty it"

definition Order_create :: "order \<Rightarrow> order list \<Rightarrow> string + order list" where
  "Order_create ord os =
     (if \<not> list_all orderItem_valid (o_items ord) then Inl ''Order validation failed''
      else if Order_findById os (o_id ord) \<noteq> None then Inl ''E11000 duplicate key error''
      else Inr (os @ [ord]))"

text \<open>\<^verbatim>\<open>doc.save()\<close> writes the document held by the handler over the stored one with
  the same \<^verbatim>\<open>_id\<close>, and throws when there is none.\<close>

definition Cart_save :: "cart \<Rightarrow> cart list \<Rightarrow> string + cart list" where
  "Cart_save c cs =
     (case updateOne (\<lambda>d. cart_id d = cart_id c) (\<lambda>_. c) cs of
        (n, cs') \<Rightarrow> if n = 0 then Inl ''No document found for query'' else Inr cs')"

definition Order_save :: "order \<Rightarrow> order list \<Rightarrow> string + order list" where
  "Order_save ord os =
     (case updateOne (\<lambda>d. o_id d = o_id ord) (\<lambda>_. ord) os of
        (n, os') \<Rightarrow> if n = 0 then Inl ''No document found for query'' else Inr os')"

text \<open>The body of the \<^verbatim>\<open>try\<close> block: \<open>Inl\<close> is the message of the error thrown,
  \<open>Inr\<close> the state that \<^verbatim>\<open>commitTransaction\<close> makes visible.\<close>

definition createOrder_try ::
  "faults \<Rightarrow> db \<Rightarrow> cart \<Rightarrow> populatedItem list \<Rightarrow> order \<Rightarrow> string + db" where
  "createOrder_try fl store c its ord =
     (case decrementStock fl 0 its (products store) of
        Inl msg \<Rightarrow> Inl msg
      | Inr ps \<Rightarrow>
          (case (case create_fault fl of Some m \<Rightarrow> Inl m
                 | None \<Rightarrow> Order_create ord (orders store)) of
             Inl msg \<Rightarrow> Inl msg
           | Inr os \<Rightarrow>
               (case (case save_fault fl of Some m \<Rightarrow> Inl m
                      | None \<Rightarrow> Cart_save (c\<lparr>cart_items := []\<rparr>) (carts store)) of
                  Inl msg \<Rightarrow> Inl msg
                | Inr cs \<Rightarrow>
                    (case commit_fault fl of
                       Some m \<Rightarrow> Inl m
                     | None \<Rightarrow> Inr (store\<lparr>products := ps, orders := os, carts := cs\<rparr>)))))"

text \<open>
  \<^verbatim>\<open>createOrder\<close>. The handler reads the cart and the products from the store as it is
  when the request arrives (\<open>view\<close>) and runs its transaction against the store as it is
  when the transaction starts (\<open>store\<close>); requests of other users may have committed in
  between. \<open>newId\<close> is the ObjectId the driver generates for the order. An aborted
  transaction leaves the store as it was.
\<close>

definition createOrder_at ::
  "db \<Rightarrow> db \<Rightarrow> faults \<Rightarrow> objectId \<Rightarrow> user \<Rightarrow> json \<Rightarrow> db \<times> outcome" where
  "createOrder_at view store fl newId usr reqBody =
     (case createOrderSchema_parse reqBody of
        Inl issues \<Rightarrow> (store, Thrown (ZodError issues))
      | Inr body \<Rightarrow>
          (case Cart_findOne (carts view) (u_id usr) of
             None \<Rightarrow> (store, Sent (Response 400 (Message ''Cart is empty'')))
           | Some c \<Rightarrow>
               if cart_items c = [] then (store, Sent (Response 400 (Message ''Cart is empty'')))
               else
                 (case buildSnapshot (populate (products view) c) 0 [] of
                    Inl resp \<Rightarrow> (store, Sent resp)
                  | Inr (subtotal0, itemsSnapshot) \<Rightarrow>
                      (let ord = orderDraft newId usr body subtotal0 itemsSnapshot
                       in case createOrder_try fl store c (populate (products view) c) ord of
                            Inl msg \<Rightarrow>
                              (store, Sent (Response 500 (Message
                                 (if msg = [] then ''Order creation failed'' else msg))))
                          | Inr store' \<Rightarrow> (store', Sent (Response 201 (OrderBody ord)))))))"

text \<open>A request served with no other request in between.\<close>

definition createOrder :: "db \<Rightarrow> faults \<Rightarrow> objectId \<Rightarrow> user \<Rightarrow> json \<Rightarrow> db \<times> outcome" where
  "createOrder store = createOrder_at store store"

subsection \<open>getOrder and updateOrderStatus\<close>

definition getOrder :: "db \<Rightarrow> user \<Rightarrow> objectId \<Rightarrow> response" where
  "getOrder store usr i =
     (case Order_findById (orders store) i of
        None \<Rightarrow> Response 404 (Message ''Not found'')
      | Some ord \<Rightarrow>
          (let isOwner = (o_user ord = u_id usr);
               isAdmin = (u_role usr = ''admin'')
           in if \<not> isOwner \<and> \<not> isAdmin then Response 403 (Message ''Forbidden'')
              else Response 200 (OrderBody ord)))"

definition updateOrderStatus :: "db \<Rightarrow> objectId \<Rightarrow> json \<Rightarrow> db \<times> outcome" where
  "updateOrderStatus store i reqBody =
     (case updateStatusSchema_parse reqBody of
        Inl issues \<Rightarrow> (store, Thrown (ZodError issues))
      | Inr data \<Rightarrow>
          (case Order_findById (orders store) i of
             None \<Rightarrow> (store, Sent (Response 404 (Message ''Not found'')))
           | Some ord \<Rightarrow>
               (let ord1 = (case d_status data of Some s \<Rightarrow> ord\<lparr>o_status := s\<rparr>
                            | None \<Rightarrow> ord);
                    ord2 = (case d_paymentStatus data of
                              Some s \<Rightarrow> ord1\<lparr>o_paymentStatus := s\<rparr> | None \<Rightarrow> ord1)
                in case Order_save ord2 (orders store) of
                     Inl msg \<Rightarrow> (store, Thrown (Error msg None))
                   | Inr os \<Rightarrow>
                       (store\<lparr>orders := os\<rparr>, Sent (Response 200 (OrderBody ord2))))))"

subsection \<open>cancelMyOrder\<close>

fun restoreStock ::
  "faults \<Rightarrow> nat \<Rightarrow> orderItem list \<Rightarrow> product list \<Rightarrow> string + product list" where
  "restoreStock fl k [] ps = Inr ps"
| "restoreStock fl k (it # its) ps =
     (case updateOne_fault fl k of
        Some m \<Rightarrow> Inl m
      | None \<Rightarrow>
          restoreStock fl (Suc k) its
            (snd (updateOne (\<lambda>d. p_id d = oi_product it)
                    (\<lambda>d. d\<lparr>p_stock := p_stock d + oi_qty it\<rparr>) ps)))"

definition cancelMyOrder_try :: "faults \<Rightarrow> int \<Rightarrow> db \<Rightarrow> order \<Rightarrow> string + db" where
  "cancelMyOrder_try fl now store ord =
     (case restoreStock fl 0 (o_items ord) (products store) of
        Inl msg \<Rightarrow> Inl msg
      | Inr ps \<Rightarrow>
          (case (case save_fault fl of Some m \<Rightarrow> Inl m
                 | None \<Rightarrow>
                     Order_save (ord\<lparr>o_cancelled := True, o_cancelledAt := Some now\<rparr>)
                       (orders store)) of
             Inl msg \<Rightarrow> Inl msg
           | Inr os \<Rightarrow>
               (case commit_fault fl of
                  Some m \<Rightarrow> Inl m
                | None \<Rightarrow> Inr (store\<lparr>products := ps, orders := os\<rparr>))))"

text \<open>\<open>now\<close> is the value of \<^verbatim>\<open>new Date()\<close>, in milliseconds.\<close>

definition cancelMyOrder :: "db \<Rightarrow> faults \<Rightarrow> int \<Rightarrow> user \<Rightarrow> objectId \<Rightarrow> db \<times> outcome" where
  "cancelMyOrder store fl now usr i =
     (case Order_findById (orders store) i of
        None \<Rightarrow> (store, Sent (Response 404 (Message ''Not found'')))
      | Some ord \<Rightarrow>
          (let isOwner = (o_user ord = u_id usr);
               isAdmin = (u_role usr = ''admin'')
           in if \<not> isOwner \<and> \<not> isAdmin
                then (store, Sent (Response 403 (Message ''Forbidden'')))
              else if o_cancelled ord
                then (store, Sent (Response 400 (Message ''Already cancelled'')))
              else if o_paymentStatus ord \<noteq> Unpaid \<or> o_status ord \<noteq> Pending
                then (store, Sent (Response 400
                        (Message ''Cannot cancel after payment or processing'')))
              else
                (case cancelMyOrder_try fl now store ord of
                   Inl msg \<Rightarrow> (store, Sent (Response 500 (Message ''Cancel failed'')))
                 | Inr store' \<Rightarrow> (store', Sent (Response 200 OkBody)))))"

section \<open>Middlewares\<close>

text \<open>\<^verbatim>\<open>requireAdmin\<close>: \<open>None\<close> stands for the call of \<^verbatim>\<open>next()\<close>.\<close>

definition requireAdmin :: "user \<Rightarrow> response option" where
  "requireAdmin usr =
     (if u_role usr \<noteq> ''admin'' then Some (Response 403 (Message ''Admin only'')) else None)"




text \<open>The route \<^verbatim>\<open>PATCH /:id/status\<close> behind \<^verbatim>\<open>requireAuth\<close>:
  \<^verbatim>\<open>requireAdmin\<close>, then the handler.\<close>

definition patchOrderStatus :: "db \<Rightarrow> user \<Rightarrow> objectId \<Rightarrow> json \<Rightarrow> db \<times> outcome" where
  "patchOrderStatus store usr i reqBody =
     (case requireAdmin usr of
        Some r \<Rightarrow> (store, Sent r)
      | None \<Rightarrow> updateOrderStatus store i reqBody)"

section \<open>Product controller: updateProduct\<close>

definition digit :: "nat \<Rightarrow> char" where
  "digit d = char_of (48 + d)"

fun showNat :: "nat \<Rightarrow> string" where
  "showNat n = (if n < 10 then [digit n] else showNat (n div 10) @ [digit (n mod 10)])"

text \<open>The loop of \<^verbatim>\<open>uniqueSlug\<close>, as \<^verbatim>\<open>updateProduct\<close> calls it, with the id of
  the product to exclude; \<open>None\<close> means that it does not return.\<close>

partial_function (option) uniqueSlug_loop ::
  "product list \<Rightarrow> string \<Rightarrow> objectId \<Rightarrow> string \<Rightarrow> nat \<Rightarrow> string option" where
  "uniqueSlug_loop ps base excludeId candidate n =
     (case find (\<lambda>p. p_slug p = candidate \<and> p_id p \<noteq> excludeId) ps of
        None \<Rightarrow> Some candidate
      | Some _ \<Rightarrow> uniqueSlug_loop ps base excludeId (base @ ''-'' @ showNat n) (Suc n))"

text \<open>\<open>toSlug\<close> is the call of the slugify library.\<close>

definition uniqueSlug ::
  "(string \<Rightarrow> string) \<Rightarrow> product list \<Rightarrow> string \<Rightarrow> objectId \<Rightarrow> string option" where
  "uniqueSlug toSlug ps baseText excludeId =
     (let base = toSlug baseText in uniqueSlug_loop ps base excludeId base 2)"

definition truthy :: "string option \<Rightarrow> bool" where
  "truthy s = (case s of None \<Rightarrow> False | Some x \<Rightarrow> x \<noteq> [])"

definition Category_findOne :: "category list \<Rightarrow> string \<Rightarrow> category option" where
  "Category_findOne cs s = find (\<lambda>c. cat_slug c = s \<and> cat_isActive c) cs"

definition resolveCategoryRefs ::
  "category list \<Rightarrow> string option \<Rightarrow> string option
     \<Rightarrow> string + objectId option \<times> objectId option" where
  "resolveCategoryRefs cs categorySlug subcategorySlug =
     (case (if truthy categorySlug
            then (case Category_findOne cs (the categorySlug) of
                    None \<Rightarrow> Inl ''categorySlug not found''
                  | Some c \<Rightarrow> Inr (Some c))
            else Inr None) of
        Inl msg \<Rightarrow> Inl msg
      | Inr category \<Rightarrow>
          (case (if truthy subcategorySlug
                 then (case Category_findOne cs (the subcategorySlug) of
                         None \<Rightarrow> Inl ''subcategorySlug not found''
                       | Some sc \<Rightarrow>
                           if cat_parent sc = None
                           then Inl ''subcategorySlug is not a subcategory''
                           else Inr (Some sc))
                 else Inr None) of
             Inl msg \<Rightarrow> Inl msg
           | Inr subcategory \<Rightarrow>
               (case (subcategory, category) of
                  (Some sc, Some c) \<Rightarrow>
                    if cat_parent sc \<noteq> Some (cat_id c)
                    then Inl ''subcategory does not belong to the given category''
                    else Inr (Some (cat_id c), Some (cat_id sc))
                | _ \<Rightarrow> Inr (map_option cat_id category, map_option cat_id subcategory))))"

text \<open>The value that \<^verbatim>\<open>updateSchema.parse\<close> returns; when it throws, the handler has
  not touched the store.\<close>

record updateData =
  ud_title :: "string option"
  ud_slug :: "string option"
  ud_regenerateSlug :: "bool option"
  ud_description :: "string option"
  ud_price :: "rat option"
  ud_stock :: "int option"
  ud_images :: "string list option"
  ud_isActive :: "bool option"
  ud_categorySlug :: "string option"
  ud_subcategorySlug :: "string option"

definition Product_save :: "product \<Rightarrow> product list \<Rightarrow> product list" where
  "Product_save p ps = snd (updateOne (\<lambda>d. p_id d = p_id p) (\<lambda>_. p) ps)"

definition applyFields :: "updateData \<Rightarrow> product \<Rightarrow> product" where
  "applyFields data p0 =
     (let p1 = (case ud_description data of Some v \<Rightarrow> p0\<lparr>p_description := Some v\<rparr>
                | None \<Rightarrow> p0);
          p2 = (case ud_price data of Some v \<Rightarrow> p1\<lparr>p_price := v\<rparr> | None \<Rightarrow> p1);
          p3 = (case ud_stock data of Some v \<Rightarrow> p2\<lparr>p_stock := v\<rparr> | None \<Rightarrow> p2);
          p4 = (case ud_images data of Some v \<Rightarrow> p3\<lparr>p_images := v\<rparr> | None \<Rightarrow> p3)
      in (case ud_isActive data of Some v \<Rightarrow> p4\<lparr>p_isActive := v\<rparr> | None \<Rightarrow> p4))"

definition updateProduct ::
  "(string \<Rightarrow> string) \<Rightarrow> db \<Rightarrow> string \<Rightarrow> updateData \<Rightarrow> (db \<times> outcome) option" where
  "updateProduct toSlug store slug data =
     (case find (\<lambda>p. p_slug p = slug) (products store) of
        None \<Rightarrow> Some (store, Sent (Response 404 (Message ''Not found'')))
      | Some current \<Rightarrow>
          (let c1 = (case ud_title data of Some t \<Rightarrow> current\<lparr>p_title := t\<rparr>
                     | None \<Rightarrow> current)
           in case (if truthy (ud_slug data)
                    then map_option (\<lambda>s. c1\<lparr>p_slug := s\<rparr>)
                           (uniqueSlug toSlug (products store) (the (ud_slug data)) (p_id c1))
                    else if ud_regenerateSlug data = Some True \<and> truthy (ud_title data)
                    then map_option (\<lambda>s. c1\<lparr>p_slug := s\<rparr>)
                           (uniqueSlug toSlug (products store) (the (ud_title data)) (p_id c1))
                    else Some c1) of
                None \<Rightarrow> None
              | Some c2 \<Rightarrow>
                  (case (if ud_categorySlug data \<noteq> None \<or> ud_subcategorySlug data \<noteq> None
                         then (case resolveCategoryRefs (categories store)
                                      (ud_categorySlug data) (ud_subcategorySlug data) of
                                 Inl msg \<Rightarrow> Inl msg
                               | Inr (categoryId, subcategoryId) \<Rightarrow>
                                   Inr (c2\<lparr>p_category := categoryId,
                                          p_subcategory := subcategoryId\<rparr>))
                         else Inr c2) of
                     Inl msg \<Rightarrow> Some (store, Sent (Response 400 (Message msg)))
                   | Inr c3 \<Rightarrow>
                       (let store' = store\<lparr>products :=
                              Product_save (applyFields data c3) (products store)\<rparr>
                        in Some (store', Sent (Response 200
                             (ItemBody (Product_findById (products store') (p_id current)))))))))"

section \<open>Notions used to state the properties\<close>

text \<open>\<^verbatim>\<open>_id\<close> is unique within a collection, and the cart schema makes
  \<^verbatim>\<open>user\<close> unique.\<close>

definition wf_db :: "db \<Rightarrow> bool" where
  "wf_db s \<longleftrightarrow>
     distinct (map p_id (products s)) \<and> distinct (map cart_id (carts s)) \<and>
     distinct (map cart_user (carts s)) \<and> distinct (map o_id (orders s))"

text \<open>The quantity of product \<open>i\<close> that the line items of an order record.\<close>

definition soldQty :: "objectId \<Rightarrow> orderItem list \<Rightarrow> int" where
  "soldQty i its = sum_list (map oi_qty (filter (\<lambda>it. oi_product it = i) its))"

text \<open>A snapshot line is the copy of a populated cart line whose product is present,
  active and in sufficient stock.\<close>

definition snapshotOf :: "populatedItem \<Rightarrow> orderItem \<Rightarrow> bool" where
  "snapshotOf l oi \<longleftrightarrow>
     (case fst l of
        None \<Rightarrow> False
      | Some p \<Rightarrow> p_isActive p \<and> snd l \<le> p_stock p \<and>
          oi = \<lparr>oi_product = p_id p, oi_title = p_title p, oi_slug = p_slug p,
                 oi_price = p_price p, oi_qty = snd l,
                 oi_lineTotal = round2 (p_price p * of_int (snd l))\<rparr>)"



subsection \<open>Example states\<close>

text \<open>One product at price 10.00 with 5 in stock, and a cart that holds 2 of it.\<close>

definition productA :: product where
  "productA = \<lparr>p_id = ''a1'', p_title = ''Product A'', p_slug = ''product-a'',
     p_description = None, p_price = 10, p_stock = 5, p_images = [], p_category = None,
     p_subcategory = None, p_isActive = True\<rparr>"

definition alice :: user where
  "alice = \<lparr>u_id = ''u1'', u_role = ''user''\<rparr>"

definition cartA :: cart where
  "cartA = \<lparr>cart_id = ''c1'', cart_user = ''u1'',
     cart_items = [\<lparr>ci_product = ''a1'', ci_qty = 2\<rparr>]\<rparr>"

definition shopA :: db where
  "shopA = \<lparr>products = [productA], categories = [], carts = [cartA], orders = []\<rparr>"

definition lineA :: orderItem where
  "lineA = \<lparr>oi_product = ''a1'', oi_title = ''Product A'', oi_slug = ''product-a'',
     oi_price = 10, oi_qty = 2, oi_lineTotal = 20\<rparr>"

definition orderA :: order where
  "orderA = \<lparr>o_id = ''o1'', o_user = ''u1'', o_items = [lineA], o_subtotal = 20,
     o_shippingFee = 0, o_tax = 0, o_grandTotal = 20, o_shippingAddress = None,
     o_paymentMethod = ''cod'', o_paymentStatus = Unpaid, o_status = Pending,
     o_cancelled = False, o_cancelledAt = None\<rparr>"

definition shopA' :: db where
  "shopA' = \<lparr>products = [productA\<lparr>p_stock := 3\<rparr>], categories = [],
     carts = [cartA\<lparr>cart_items := []\<rparr>], orders = [orderA]\<rparr>"





text \<open>What the checks of \<^verbatim>\<open>createOrder\<close> reject in a populated cart line: a
  product that is missing or inactive, a quantity above the stock.\<close>

definition unavailable :: "populatedItem \<Rightarrow> bool" where
  "unavailable l \<longleftrightarrow> (case fst l of None \<Rightarrow> True | Some p \<Rightarrow> \<not> p_isActive p)"









text \<open>Further users, and the store after the checkout of cart A with the order paid,
  and with the order cancelled.\<close>

definition bob :: user where
  "bob = \<lparr>u_id = ''u2'', u_role = ''user''\<rparr>"

definition admin :: user where
  "admin = \<lparr>u_id = ''u9'', u_role = ''admin''\<rparr>"

definition shopPaid :: db where
  "shopPaid = shopA'\<lparr>orders := [orderA\<lparr>o_status := Paid\<rparr>]\<rparr>"

definition shopCancelled :: db where
  "shopCancelled = \<lparr>products = [productA], categories = [],
     carts = [cartA\<lparr>cart_items := []\<rparr>],
     orders = [orderA\<lparr>o_cancelled := True, o_cancelledAt := Some 1700000000000\<rparr>]\<rparr>"



text \<open>The strings of the two enums.\<close>

definition statusName :: "orderStatus \<Rightarrow> string" where
  "statusName s = (case s of Pending \<Rightarrow> ''pending'' | Paid \<Rightarrow> ''paid''
     | Shipped \<Rightarrow> ''shipped'' | Delivered \<Rightarrow> ''delivered'')"

definition paymentStatusName :: "paymentStatus \<Rightarrow> string" where
  "paymentStatusName s = (case s of Unpaid \<Rightarrow> ''unpaid'' | PaymentPaid \<Rightarrow> ''paid''
     | Refunded \<Rightarrow> ''refunded'')"

text \<open>The body of a status update that selects the given values.\<close>

definition statusBody :: "orderStatus option \<Rightarrow> paymentStatus option \<Rightarrow> json" where
  "statusBody st pst =
     JObj ((case st of None \<Rightarrow> [] | Some s \<Rightarrow> [(''status'', JStr (statusName s))]) @
           (case pst of None \<Rightarrow> []
            | Some s \<Rightarrow> [(''paymentStatus'', JStr (paymentStatusName s))]))"


text \<open>A product update that sets the price to 99.\<close>

definition priceUpdate :: updateData where
  "priceUpdate = \<lparr>ud_title = None, ud_slug = None, ud_regenerateSlug = None,
     ud_description = None, ud_price = Some 99, ud_stock = None, ud_images = None,
     ud_isActive = None, ud_categorySlug = None, ud_subcategorySlug = None\<rparr>"

text \<open>
  A sequence of checkout requests. Each request has read its cart and the products from
  its own view of the store, which may be older than the store its transaction runs
  against; the transactions run one after the other.
\<close>

record attempt =
  a_view :: db
  a_faults :: faults
  a_newId :: objectId
  a_user :: user
  a_body :: json

fun checkouts :: "db \<Rightarrow> attempt list \<Rightarrow> db \<times> outcome list" where
  "checkouts store [] = (store, [])"
| "checkouts store (a # atts) =
     (case createOrder_at (a_view a) store (a_faults a) (a_newId a) (a_user a) (a_body a) of
        (store1, out) \<Rightarrow>
          (case checkouts store1 atts of (store2, outs) \<Rightarrow> (store2, out # outs)))"

text \<open>The quantity of product \<open>i\<close> that a response, and a list of responses, report as
  ordered: the lines of the order of a 201 response.\<close>

definition soldOf :: "objectId \<Rightarrow> outcome \<Rightarrow> int" where
  "soldOf i out =
     (case out of
        Sent (Response c (OrderBody ord)) \<Rightarrow> if c = 201 then soldQty i (o_items ord) else 0
      | _ \<Rightarrow> 0)"

definition soldTotal :: "objectId \<Rightarrow> outcome list \<Rightarrow> int" where
  "soldTotal i outs = sum_list (map (soldOf i) outs)"

text \<open>Two users whose carts both hold the last unit of a product, and who both read
  the store before either transaction runs.\<close>

definition productL :: product where
  "productL = \<lparr>p_id = ''l1'', p_title = ''Last unit'', p_slug = ''last-unit'',
     p_description = None, p_price = 7, p_stock = 1, p_images = [], p_category = None,
     p_subcategory = None, p_isActive = True\<rparr>"

definition cartAlice :: cart where
  "cartAlice = \<lparr>cart_id = ''c1'', cart_user = ''u1'',
     cart_items = [\<lparr>ci_product = ''l1'', ci_qty = 1\<rparr>]\<rparr>"

definition cartBob :: cart where
  "cartBob = \<lparr>cart_id = ''c2'', cart_user = ''u2'',
     cart_items = [\<lparr>ci_product = ''l1'', ci_qty = 1\<rparr>]\<rparr>"

definition shopRace :: db where
  "shopRace = \<lparr>products = [productL], categories = [], carts = [cartAlice, cartBob],
     orders = []\<rparr>"

definition shopRace1 :: db where
  "shopRace1 = fst (createOrder shopRace no_faults ''o1'' alice (JObj []))"

definition raceAttempts :: "attempt list" where
  "raceAttempts =
     [\<lparr>a_view = shopRace, a_faults = no_faults, a_newId = ''o1'', a_user = alice,
        a_body = JObj []\<rparr>,
      \<lparr>a_view = shopRace, a_faults = no_faults, a_newId = ''o2'', a_user = bob,
        a_body = JObj []\<rparr>]"

section \<open>Lemmas on the collection operations\<close>

lemma updateOne_count:
  "fst (updateOne P f ds) = (if \<exists>d\<in>set ds. P d then 1 else 0)"
  by (induction ds) (auto split: prod.splits)

lemma updateOne_unmatched:
  "\<not> (\<exists>d\<in>set ds. P d) \<Longrightarrow> snd (updateOne P f ds) = ds"
  by (induction ds) (auto split: prod.splits)

lemma updateOne_keyed:
  assumes "distinct (map key ds)"
  shows "snd (updateOne (\<lambda>d. key d = i \<and> Q d) f ds) =
         map (\<lambda>d. if key d = i \<and> Q d then f d else d) ds"
  using assms
proof (induction ds)
  case Nil
  then show ?case by simp
next
  case (Cons d ds)
  show ?case
  proof (cases "key d = i \<and> Q d")
    case True
    with Cons.prems have "\<forall>e\<in>set ds. key e \<noteq> i"
      by (fastforce simp: image_iff)
    then have "map (\<lambda>d. if key d = i \<and> Q d then f d else d) ds = ds"
      by (induction ds) auto
    with True show ?thesis by simp
  next
    case False
    with Cons show ?thesis by (auto split: prod.splits)
  qed
qed

lemma updateOne_keys:
  assumes "\<And>d. P d \<Longrightarrow> key (f d) = key d"
  shows "map key (snd (updateOne P f ds)) = map key ds"
  by (induction ds) (auto simp: assms split: prod.splits)

lemma updateOne_all:
  assumes "list_all Inv ds" and "\<And>d. P d \<Longrightarrow> Inv d \<Longrightarrow> Inv (f d)"
  shows "list_all Inv (snd (updateOne P f ds))"
  using assms(1) by (induction ds) (auto simp: assms(2) split: prod.splits)

lemma soldQty_Nil: "soldQty i [] = 0"
  by (simp add: soldQty_def)

lemma soldQty_Cons:
  "soldQty i (oi # its) = (if oi_product oi = i then oi_qty oi else 0) + soldQty i its"
  by (simp add: soldQty_def)

section \<open>Lemmas on createOrder\<close>

lemma snapshotOf_D:
  "snapshotOf l oi \<Longrightarrow> \<exists>p. l = (Some p, oi_qty oi) \<and> oi_product oi = p_id p \<and>
      oi_price oi = p_price p \<and> oi_lineTotal oi = round2 (p_price p * of_int (oi_qty oi)) \<and>
      oi_title oi = p_title p \<and> oi_slug oi = p_slug p \<and>
      p_isActive p \<and> oi_qty oi \<le> p_stock p"
  by (cases l; cases "fst l") (simp_all add: snapshotOf_def)

lemma buildSnapshot_acc:
  "buildSnapshot its s snap = Inr (s', snap') \<Longrightarrow>
   \<exists>new. snap' = snap @ new \<and> s' = s + sum_list (map oi_lineTotal new) \<and>
     list_all2 snapshotOf its new"
proof (induction its s snap rule: buildSnapshot.induct)
  case (1 subtotal itemsSnapshot)
  then show ?case by simp
next
  case (2 qty its subtotal itemsSnapshot)
  then show ?case by simp
next
  case (3 p qty its subtotal itemsSnapshot)
  let ?oi = "\<lparr>oi_product = p_id p, oi_title = p_title p, oi_slug = p_slug p,
               oi_price = p_price p, oi_qty = qty,
               oi_lineTotal = round2 (p_price p * of_int qty)\<rparr>"
  from "3.prems" have ok: "p_isActive p" "\<not> p_stock p < qty"
    and rec: "buildSnapshot its (subtotal + round2 (p_price p * of_int qty))
                (itemsSnapshot @ [?oi]) = Inr (s', snap')"
    by (auto split: if_splits simp: Let_def)
  from "3.IH"[OF _ _ refl rec] ok obtain new where
    new: "snap' = (itemsSnapshot @ [?oi]) @ new"
      "s' = subtotal + round2 (p_price p * of_int qty) + sum_list (map oi_lineTotal new)"
      "list_all2 snapshotOf its new"
    by auto
  have hd: "snapshotOf (Some p, qty) ?oi"
    using ok by (simp add: snapshotOf_def)
  show ?case
    by (rule exI[of _ "?oi # new"]) (use new hd in simp)
qed

lemma buildSnapshot_rejects:
  "buildSnapshot its s snap = Inl r \<Longrightarrow>
     r = Response 400 (Message ''Product unavailable in cart'') \<or>
     (\<exists>p q. (Some p, q) \<in> set its \<and> p_stock p < q \<and>
        r = Response 400 (Message (''Insufficient stock for '' @ p_slug p)))"
  by (induction its s snap rule: buildSnapshot.induct) (auto split: if_splits simp: Let_def)

lemma decrementStock_step:
  "decrementStock fl k ((Some p, q) # its) ps = Inr ps' \<Longrightarrow>
     fst (updateOne (\<lambda>d. p_id d = p_id p \<and> q \<le> p_stock d)
            (\<lambda>d. d\<lparr>p_stock := p_stock d - q\<rparr>) ps) = 1 \<and>
     decrementStock fl (Suc k) its
       (snd (updateOne (\<lambda>d. p_id d = p_id p \<and> q \<le> p_stock d)
            (\<lambda>d. d\<lparr>p_stock := p_stock d - q\<rparr>) ps)) = Inr ps'"
  by (simp split: option.splits prod.splits if_splits)

lemma decrementStock_closed:
  assumes "decrementStock fl k its ps = Inr ps'" and "list_all2 snapshotOf its snap"
    and "distinct (map p_id ps)"
  shows "ps' = map (\<lambda>d. d\<lparr>p_stock := p_stock d - soldQty (p_id d) snap\<rparr>) ps"
  using assms
proof (induction its arbitrary: k ps snap)
  case Nil
  then show ?case by (simp add: soldQty_Nil)
next
  case (Cons l its)
  from Cons.prems(2) obtain oi snap' where snap: "snap = oi # snap'"
    and oi: "snapshotOf l oi" and rest: "list_all2 snapshotOf its snap'"
    by (auto simp: list_all2_Cons1)
  from snapshotOf_D[OF oi] obtain p where l: "l = (Some p, oi_qty oi)"
    and pid: "oi_product oi = p_id p"
    by blast
  let ?q = "oi_qty oi"
  let ?P = "\<lambda>d. p_id d = p_id p \<and> ?q \<le> p_stock d"
  let ?f = "\<lambda>d. d\<lparr>p_stock := p_stock d - ?q\<rparr>"
  let ?ps1 = "snd (updateOne ?P ?f ps)"
  from decrementStock_step[OF Cons.prems(1)[unfolded l]]
  have cnt: "fst (updateOne ?P ?f ps) = 1"
    and rec: "decrementStock fl (Suc k) its ?ps1 = Inr ps'"
    by blast+
  from cnt obtain d0 where d0: "d0 \<in> set ps" "p_id d0 = p_id p" "?q \<le> p_stock d0"
    by (auto simp: updateOne_count split: if_splits)
  have uniq: "\<And>d. d \<in> set ps \<Longrightarrow> p_id d = p_id p \<Longrightarrow> d = d0"
    using Cons.prems(3) d0 by (auto simp: distinct_map inj_on_def)
  have eqv: "\<And>d. d \<in> set ps \<Longrightarrow>
      (p_id d = p_id p \<and> ?q \<le> p_stock d) \<longleftrightarrow> p_id d = p_id p"
    using uniq d0 by blast
  have "?ps1 = map (\<lambda>d. if p_id d = p_id p \<and> ?q \<le> p_stock d then ?f d else d) ps"
    by (rule updateOne_keyed[OF Cons.prems(3)])
  also have "\<dots> = map (\<lambda>d. if p_id d = p_id p then ?f d else d) ps"
    by (rule map_cong[OF refl]) (simp only: eqv)
  finally have ps1: "?ps1 = map (\<lambda>d. if p_id d = p_id p then ?f d else d) ps" .
  have dist1: "distinct (map p_id ?ps1)"
    using Cons.prems(3) by (simp add: updateOne_keys[of _ p_id])
  from Cons.IH[OF rec rest dist1]
  have "ps' = map (\<lambda>d. d\<lparr>p_stock := p_stock d - soldQty (p_id d) snap'\<rparr>) ?ps1" .
  then have "ps' = map (\<lambda>d. d\<lparr>p_stock := p_stock d - soldQty (p_id d) snap'\<rparr>)
                     (map (\<lambda>d. if p_id d = p_id p then ?f d else d) ps)"
    by (simp only: ps1)
  also have "\<dots> = map (\<lambda>d. d\<lparr>p_stock := p_stock d - soldQty (p_id d) snap\<rparr>) ps"
    unfolding map_map snap
    by (rule map_cong[OF refl]) (simp add: soldQty_Cons pid)
  finally show ?case .
qed

lemma orderDraft_sel:
  "o_id (orderDraft newId usr body s0 snap) = newId"
  "o_user (orderDraft newId usr body s0 snap) = u_id usr"
  "o_items (orderDraft newId usr body s0 snap) = snap"
  "o_subtotal (orderDraft newId usr body s0 snap) = round2 s0"
  "o_shippingFee (orderDraft newId usr body s0 snap) = 0"
  "o_tax (orderDraft newId usr body s0 snap) = 0"
  "o_grandTotal (orderDraft newId usr body s0 snap) = round2 (round2 s0 + 0 + 0)"
  "o_paymentStatus (orderDraft newId usr body s0 snap) = Unpaid"
  "o_status (orderDraft newId usr body s0 snap) = Pending"
  "o_cancelled (orderDraft newId usr body s0 snap) = False"
  "o_cancelledAt (orderDraft newId usr body s0 snap) = None"
  by (simp_all add: orderDraft_def Let_def calcShipping_def calcTax_def)

lemma createOrder_at_cases:
  assumes "createOrder_at view store fl newId usr reqBody = (store', out)"
  shows "(\<exists>issues. createOrderSchema_parse reqBody = Inl issues \<and> store' = store \<and>
            out = Thrown (ZodError issues))
    \<or> (\<exists>body. createOrderSchema_parse reqBody = Inr body \<and>
          (Cart_findOne (carts view) (u_id usr) = None \<or>
           (\<exists>c. Cart_findOne (carts view) (u_id usr) = Some c \<and> cart_items c = [])) \<and>
          store' = store \<and> out = Sent (Response 400 (Message ''Cart is empty'')))
    \<or> (\<exists>body c r. createOrderSchema_parse reqBody = Inr body \<and>
          Cart_findOne (carts view) (u_id usr) = Some c \<and> cart_items c \<noteq> [] \<and>
          buildSnapshot (populate (products view) c) 0 [] = Inl r \<and>
          store' = store \<and> out = Sent r)
    \<or> (\<exists>body c s0 snap msg. createOrderSchema_parse reqBody = Inr body \<and>
          Cart_findOne (carts view) (u_id usr) = Some c \<and> cart_items c \<noteq> [] \<and>
          buildSnapshot (populate (products view) c) 0 [] = Inr (s0, snap) \<and>
          createOrder_try fl store c (populate (products view) c)
            (orderDraft newId usr body s0 snap) = Inl msg \<and>
          store' = store \<and>
          out = Sent (Response 500 (Message
                  (if msg = [] then ''Order creation failed'' else msg))))
    \<or> (\<exists>body c s0 snap. createOrderSchema_parse reqBody = Inr body \<and>
          Cart_findOne (carts view) (u_id usr) = Some c \<and> cart_items c \<noteq> [] \<and>
          buildSnapshot (populate (products view) c) 0 [] = Inr (s0, snap) \<and>
          createOrder_try fl store c (populate (products view) c)
            (orderDraft newId usr body s0 snap) = Inr store' \<and>
          out = Sent (Response 201 (OrderBody (orderDraft newId usr body s0 snap))))"
proof (cases "createOrderSchema_parse reqBody")
  case (Inl issues)
  with assms show ?thesis by (simp add: createOrder_at_def)
next
  case (Inr body)
  show ?thesis
  proof (cases "Cart_findOne (carts view) (u_id usr)")
    case None
    with assms Inr show ?thesis by (simp add: createOrder_at_def)
  next
    case (Some c)
    show ?thesis
    proof (cases "cart_items c = []")
      case True
      with assms Inr Some show ?thesis by (simp add: createOrder_at_def)
    next
      case False
      show ?thesis
      proof (cases "buildSnapshot (populate (products view) c) 0 []")
        case (Inl r)
        with assms Inr Some False show ?thesis by (simp add: createOrder_at_def)
      next
        case built: (Inr res)
        obtain s0 snap where res: "res = (s0, snap)" by (cases res)
        show ?thesis
        proof (cases "createOrder_try fl store c (populate (products view) c)
            (orderDraft newId usr body s0 snap)")
          case (Inl msg)
          with assms Inr Some False built res show ?thesis
            by (simp add: createOrder_at_def Let_def)
        next
          case ok: (Inr st)
          with assms Inr Some False built res show ?thesis
            by (simp add: createOrder_at_def Let_def)
        qed
      qed
    qed
  qed
qed

lemma createOrder_try_Inr:
  assumes "createOrder_try fl store c its ord = Inr store'"
  shows "\<exists>ps os cs. decrementStock fl 0 its (products store) = Inr ps \<and>
           Order_create ord (orders store) = Inr os \<and>
           Cart_save (c\<lparr>cart_items := []\<rparr>) (carts store) = Inr cs \<and>
           store' = store\<lparr>products := ps, orders := os, carts := cs\<rparr>"
  using assms unfolding createOrder_try_def
  by (simp split: sum.splits option.splits)

lemma Order_create_Inr:
  "Order_create ord os = Inr os' \<Longrightarrow>
     os' = os @ [ord] \<and> Order_findById os (o_id ord) = None \<and>
     list_all orderItem_valid (o_items ord)"
  by (simp add: Order_create_def split: if_splits)

lemma Cart_save_Inr:
  assumes "Cart_save c cs = Inr cs'" and "distinct (map cart_id cs)"
  shows "cs' = map (\<lambda>d. if cart_id d = cart_id c then c else d) cs"
proof -
  from assms(1) have "cs' = snd (updateOne (\<lambda>d. cart_id d = cart_id c \<and> True) (\<lambda>_. c) cs)"
    by (simp add: Cart_save_def split: prod.splits if_splits)
  also have "\<dots> = map (\<lambda>d. if cart_id d = cart_id c \<and> True then c else d) cs"
    by (rule updateOne_keyed[OF assms(2)])
  finally show ?thesis by simp
qed



section \<open>Order totals\<close>



lemma find_snoc_fresh:
  "find P xs = None \<Longrightarrow> P x \<Longrightarrow> find P (xs @ [x]) = Some x"
  by (induction xs) (auto split: if_splits)

lemma find_map_replace:
  assumes "find P cs = Some c" and "distinct (map key cs)" and "P c'"
  shows "find P (map (\<lambda>d. if key d = key c then c' else d) cs) = Some c'"
  using assms(1,2)
proof (induction cs)
  case Nil
  then show ?case by simp
next
  case (Cons d ds)
  show ?case
  proof (cases "P d")
    case True
    with Cons.prems assms(3) show ?thesis by simp
  next
    case False
    with Cons.prems have f: "find P ds = Some c" by simp
    then have "c \<in> set ds" by (auto simp: find_Some_iff)
    with Cons.prems(2) have "key d \<noteq> key c" by (auto simp: image_iff)
    with False Cons.IH[OF f] Cons.prems(2) show ?thesis by simp
  qed
qed

lemma Product_findById_id:
  "Product_findById ps i = Some p \<Longrightarrow> p_id p = i"
  by (auto simp: Product_findById_def find_Some_iff)

lemma createOrder_at_committed:
  assumes run: "createOrder_at view store fl newId usr reqBody
                  = (store', Sent (Response 201 (OrderBody ord)))"
    and dp: "distinct (map p_id (products store))"
    and dc: "distinct (map cart_id (carts store))"
  shows "\<exists>c. Cart_findOne (carts view) (u_id usr) = Some c \<and> cart_items c \<noteq> [] \<and>
           list_all2 snapshotOf (populate (products view) c) (o_items ord) \<and>
           o_id ord = newId \<and> o_status ord = Pending \<and> o_paymentStatus ord = Unpaid \<and>
           o_cancelled ord = False \<and>
           Order_findById (orders store) newId = None \<and>
           createOrder_try fl store c (populate (products view) c) ord = Inr store' \<and>
           store' = store\<lparr>products :=
                        map (\<lambda>d. d\<lparr>p_stock := p_stock d - soldQty (p_id d) (o_items ord)\<rparr>)
                          (products store),
                      orders := orders store @ [ord],
                      carts := map (\<lambda>d. if cart_id d = cart_id c then c\<lparr>cart_items := []\<rparr>
                                         else d) (carts store)\<rparr>"
proof -
  from createOrder_at_cases[OF run] buildSnapshot_rejects
  obtain body c s0 snap where c: "Cart_findOne (carts view) (u_id usr) = Some c"
    and ne: "cart_items c \<noteq> []"
    and built: "buildSnapshot (populate (products view) c) 0 [] = Inr (s0, snap)"
    and tr: "createOrder_try fl store c (populate (products view) c)
                (orderDraft newId usr body s0 snap) = Inr store'"
    and ord: "ord = orderDraft newId usr body s0 snap"
    by (elim disjE exE conjE) fastforce+
  from buildSnapshot_acc[OF built]
  have snap: "list_all2 snapshotOf (populate (products view) c) (o_items ord)"
    by (simp add: ord orderDraft_sel)
  from createOrder_try_Inr[OF tr] obtain ps os cs where
    dec: "decrementStock fl 0 (populate (products view) c) (products store) = Inr ps"
    and cre: "Order_create ord (orders store) = Inr os"
    and sav: "Cart_save (c\<lparr>cart_items := []\<rparr>) (carts store) = Inr cs"
    and st: "store' = store\<lparr>products := ps, orders := os, carts := cs\<rparr>"
    unfolding ord by blast
  have ps: "ps = map (\<lambda>d. d\<lparr>p_stock := p_stock d - soldQty (p_id d) (o_items ord)\<rparr>)
                   (products store)"
    by (rule decrementStock_closed[OF dec snap dp])
  from Order_create_Inr[OF cre] have os: "os = orders store @ [ord]"
    and fresh: "Order_findById (orders store) newId = None"
    by (simp_all add: ord orderDraft_sel)
  from Cart_save_Inr[OF sav dc]
  have cs: "cs = map (\<lambda>d. if cart_id d = cart_id c then c\<lparr>cart_items := []\<rparr> else d)
                   (carts store)"
    by simp
  show ?thesis
    using c ne snap fresh tr st
    by (simp add: ps os cs ord orderDraft_sel)
qed


lemma snapshot_lines:
  assumes "list_all2 snapshotOf (populate ps c) snap"
  shows "map oi_product snap = map ci_product (cart_items c) \<and>
         map oi_qty snap = map ci_qty (cart_items c)"
proof -
  have "list_all2 (\<lambda>it oi. oi_product oi = ci_product it \<and> oi_qty oi = ci_qty it)
          (cart_items c) snap"
    using assms unfolding populate_def list_all2_map1
    by (rule list_all2_mono)
       (auto simp: snapshotOf_def Product_findById_id split: option.splits)
  then show ?thesis
    by (induction rule: list_all2_induct) auto
qed

section \<open>Successful checkout\<close>

text \<open>
  Claim C3. When \<^verbatim>\<open>createOrder\<close> answers 201, the order is stored under its id with
  status pending and payment status unpaid, the stock of every product is reduced by
  exactly the quantity that the order's lines record for it (the quantities of the cart),
  and the user's cart has no items. For the cart of one line with price 10.00, stock 5 and
  quantity 2 the order has subtotal 20.00 and grand total 20.00, the stock becomes 3 and
  the cart is empty.
\<close>

theorem checkout_success:
  "(wf_db store \<and>
    createOrder store fl newId usr reqBody
      = (store', Sent (Response 201 (OrderBody ord))) \<longrightarrow>
      Order_findById (orders store') newId = Some ord \<and>
      o_status ord = Pending \<and> o_paymentStatus ord = Unpaid \<and>
      products store' =
        map (\<lambda>d. d\<lparr>p_stock := p_stock d - soldQty (p_id d) (o_items ord)\<rparr>) (products store) \<and>
      (\<exists>c. Cart_findOne (carts store) (u_id usr) = Some c \<and>
           map oi_product (o_items ord) = map ci_product (cart_items c) \<and>
           map oi_qty (o_items ord) = map ci_qty (cart_items c)) \<and>
      (\<exists>c'. Cart_findOne (carts store') (u_id usr) = Some c' \<and> cart_items c' = [])) \<and>
   createOrder shopA no_faults ''o1'' alice (JObj [])
     = (shopA', Sent (Response 201 (OrderBody orderA))) \<and>
   o_subtotal orderA = 20 \<and> o_grandTotal orderA = 20 \<and>
   map p_stock (products shopA) = [5] \<and> map p_stock (products shopA') = [3] \<and>
   map cart_items (carts shopA') = [[]]"
proof (intro conjI impI)
  assume asm: "wf_db store \<and>
    createOrder store fl newId usr reqBody = (store', Sent (Response 201 (OrderBody ord)))"
  then have run: "createOrder_at store store fl newId usr reqBody
                    = (store', Sent (Response 201 (OrderBody ord)))"
    and dp: "distinct (map p_id (products store))"
    and dc: "distinct (map cart_id (carts store))"
    by (simp_all add: createOrder_def wf_db_def)
  from createOrder_at_committed[OF run dp dc] obtain c where
    c: "Cart_findOne (carts store) (u_id usr) = Some c"
    and snap: "list_all2 snapshotOf (populate (products store) c) (o_items ord)"
    and oid: "o_id ord = newId"
    and st: "o_status ord = Pending" "o_paymentStatus ord = Unpaid"
    and fresh: "Order_findById (orders store) newId = None"
    and eq: "store' = store\<lparr>products :=
                        map (\<lambda>d. d\<lparr>p_stock := p_stock d - soldQty (p_id d) (o_items ord)\<rparr>)
                          (products store),
                      orders := orders store @ [ord],
                      carts := map (\<lambda>d. if cart_id d = cart_id c then c\<lparr>cart_items := []\<rparr>
                                         else d) (carts store)\<rparr>"
    by blast
  show "Order_findById (orders store') newId = Some ord"
    using fresh oid by (simp add: eq Order_findById_def find_snoc_fresh)
  show "o_status ord = Pending" "o_paymentStatus ord = Unpaid" by (rule st)+
  show "products store' =
        map (\<lambda>d. d\<lparr>p_stock := p_stock d - soldQty (p_id d) (o_items ord)\<rparr>) (products store)"
    by (simp add: eq)
  show "\<exists>c. Cart_findOne (carts store) (u_id usr) = Some c \<and>
           map oi_product (o_items ord) = map ci_product (cart_items c) \<and>
           map oi_qty (o_items ord) = map ci_qty (cart_items c)"
    using c snapshot_lines[OF snap] by blast
  have cu: "cart_user c = u_id usr"
    using c by (auto simp: Cart_findOne_def find_Some_iff)
  have "Cart_findOne (carts store') (u_id usr) = Some (c\<lparr>cart_items := []\<rparr>)"
    unfolding Cart_findOne_def eq
    using find_map_replace[where P = "\<lambda>c. cart_user c = u_id usr" and key = cart_id
        and c' = "c\<lparr>cart_items := []\<rparr>", OF c[unfolded Cart_findOne_def] dc] cu
    by simp
  then show "\<exists>c'. Cart_findOne (carts store') (u_id usr) = Some c' \<and> cart_items c' = []"
    by simp
next
  show "createOrder shopA no_faults ''o1'' alice (JObj [])
     = (shopA', Sent (Response 201 (OrderBody orderA)))"
    by code_simp
qed (simp_all add: orderA_def shopA_def shopA'_def productA_def cartA_def)

theorem checkout_success_witness:
  "wf_db shopA \<and>
   createOrder shopA no_faults ''o1'' alice (JObj [])
     = (shopA', Sent (Response 201 (OrderBody orderA))) \<and>
   Order_findById (orders shopA') ''o1'' = Some orderA \<and>
   o_status orderA = Pending \<and> o_paymentStatus orderA = Unpaid \<and>
   products shopA' =
     map (\<lambda>d. d\<lparr>p_stock := p_stock d - soldQty (p_id d) (o_items orderA)\<rparr>) (products shopA) \<and>
   (\<exists>c'. Cart_findOne (carts shopA') (u_id alice) = Some c' \<and> cart_items c' = [])"
proof -
  have h1: "wf_db shopA" by code_simp
  have h2: "createOrder shopA no_faults ''o1'' alice (JObj [])
     = (shopA', Sent (Response 201 (OrderBody orderA)))" by code_simp
  from checkout_success[of shopA no_faults "''o1''" alice "JObj []" shopA' orderA] h1 h2
  show ?thesis by blast
qed


section \<open>Atomicity of checkout\<close>






section \<open>Validation before the transaction\<close>






section \<open>Cancellation\<close>

text \<open>
  Claim C5. For an existing order: a requester who is neither the owner nor an
  administrator gets 403 \<^verbatim>\<open>Forbidden\<close>; the owner or an administrator gets 400
  \<^verbatim>\<open>Already cancelled\<close> when the order is cancelled, and otherwise 400
  \<^verbatim>\<open>Cannot cancel after payment or processing\<close> unless the payment status is unpaid
  and the status is pending, administrators included. Only an eligible order reaches the
  transaction. The store is unchanged whenever the request is refused.
\<close>

theorem cancel_eligibility:
  assumes "Order_findById (orders store) i = Some ord"
  shows "(o_user ord \<noteq> u_id usr \<and> u_role usr \<noteq> ''admin'' \<longrightarrow>
            cancelMyOrder store fl now usr i
              = (store, Sent (Response 403 (Message ''Forbidden'')))) \<and>
         ((o_user ord = u_id usr \<or> u_role usr = ''admin'') \<and> o_cancelled ord \<longrightarrow>
            cancelMyOrder store fl now usr i
              = (store, Sent (Response 400 (Message ''Already cancelled'')))) \<and>
         ((o_user ord = u_id usr \<or> u_role usr = ''admin'') \<and> \<not> o_cancelled ord \<and>
          (o_paymentStatus ord \<noteq> Unpaid \<or> o_status ord \<noteq> Pending) \<longrightarrow>
            cancelMyOrder store fl now usr i
              = (store, Sent (Response 400
                   (Message ''Cannot cancel after payment or processing'')))) \<and>
         ((o_user ord = u_id usr \<or> u_role usr = ''admin'') \<and> \<not> o_cancelled ord \<and>
          o_paymentStatus ord = Unpaid \<and> o_status ord = Pending \<longrightarrow>
            (\<exists>store'. cancelMyOrder store fl now usr i
                        = (store', Sent (Response 200 OkBody))) \<or>
            cancelMyOrder store fl now usr i
              = (store, Sent (Response 500 (Message ''Cancel failed''))))"
proof (intro conjI impI)
  assume "o_user ord \<noteq> u_id usr \<and> u_role usr \<noteq> ''admin''"
  with assms show "cancelMyOrder store fl now usr i
              = (store, Sent (Response 403 (Message ''Forbidden'')))"
    by (simp add: cancelMyOrder_def)
next
  assume "(o_user ord = u_id usr \<or> u_role usr = ''admin'') \<and> o_cancelled ord"
  with assms show "cancelMyOrder store fl now usr i
              = (store, Sent (Response 400 (Message ''Already cancelled'')))"
    by (auto simp: cancelMyOrder_def)
next
  assume "(o_user ord = u_id usr \<or> u_role usr = ''admin'') \<and> \<not> o_cancelled ord \<and>
          (o_paymentStatus ord \<noteq> Unpaid \<or> o_status ord \<noteq> Pending)"
  with assms show "cancelMyOrder store fl now usr i
              = (store, Sent (Response 400
                   (Message ''Cannot cancel after payment or processing'')))"
    by (auto simp: cancelMyOrder_def)
next
  assume "(o_user ord = u_id usr \<or> u_role usr = ''admin'') \<and> \<not> o_cancelled ord \<and>
          o_paymentStatus ord = Unpaid \<and> o_status ord = Pending"
  with assms show "(\<exists>store'. cancelMyOrder store fl now usr i
                        = (store', Sent (Response 200 OkBody))) \<or>
            cancelMyOrder store fl now usr i
              = (store, Sent (Response 500 (Message ''Cancel failed'')))"
    by (cases "cancelMyOrder_try fl now store ord") (auto simp: cancelMyOrder_def)
qed

theorem cancel_eligibility_witness:
  "Order_findById (orders shopA') ''o1'' = Some orderA \<and>
   o_user orderA \<noteq> u_id bob \<and> u_role bob \<noteq> ''admin'' \<and>
   cancelMyOrder shopA' no_faults 1700000000000 bob ''o1''
     = (shopA', Sent (Response 403 (Message ''Forbidden''))) \<and>
   Order_findById (orders shopCancelled) ''o1''
     = Some (orderA\<lparr>o_cancelled := True, o_cancelledAt := Some 1700000000000\<rparr>) \<and>
   cancelMyOrder shopCancelled no_faults 1700000000001 alice ''o1''
     = (shopCancelled, Sent (Response 400 (Message ''Already cancelled''))) \<and>
   Order_findById (orders shopPaid) ''o1'' = Some (orderA\<lparr>o_status := Paid\<rparr>) \<and>
   u_role admin = ''admin'' \<and>
   cancelMyOrder shopPaid no_faults 1700000000000 admin ''o1''
     = (shopPaid, Sent (Response 400 (Message ''Cannot cancel after payment or processing'')))"
proof -
  have h1: "Order_findById (orders shopA') ''o1'' = Some orderA" by code_simp
  have h2: "o_user orderA \<noteq> u_id bob \<and> u_role bob \<noteq> ''admin''" by code_simp
  have h3: "Order_findById (orders shopCancelled) ''o1''
     = Some (orderA\<lparr>o_cancelled := True, o_cancelledAt := Some 1700000000000\<rparr>)"
    by code_simp
  have h4: "(o_user (orderA\<lparr>o_cancelled := True, o_cancelledAt := Some 1700000000000\<rparr>)
      = u_id alice \<or> u_role alice = ''admin'') \<and>
     o_cancelled (orderA\<lparr>o_cancelled := True, o_cancelledAt := Some 1700000000000\<rparr>)"
    by code_simp
  have h5: "Order_findById (orders shopPaid) ''o1'' = Some (orderA\<lparr>o_status := Paid\<rparr>)"
    by code_simp
  have h6: "(o_user (orderA\<lparr>o_status := Paid\<rparr>) = u_id admin \<or> u_role admin = ''admin'') \<and>
      \<not> o_cancelled (orderA\<lparr>o_status := Paid\<rparr>) \<and>
      (o_paymentStatus (orderA\<lparr>o_status := Paid\<rparr>) \<noteq> Unpaid \<or>
       o_status (orderA\<lparr>o_status := Paid\<rparr>) \<noteq> Pending)"
    by code_simp
  have h7: "u_role admin = ''admin''" by code_simp
  note r1 = cancel_eligibility[OF h1, of bob no_faults 1700000000000,
      THEN conjunct1, THEN mp, OF h2]
  note r2 = cancel_eligibility[OF h3, of alice no_faults 1700000000001,
      THEN conjunct2, THEN conjunct1, THEN mp, OF h4]
  note r3 = cancel_eligibility[OF h5, of admin no_faults 1700000000000,
      THEN conjunct2, THEN conjunct2, THEN conjunct1, THEN mp, OF h6]
  show ?thesis
    by (intro conjI h1 h2[THEN conjunct1] h2[THEN conjunct2] r1 h3 r2 h5 h7 r3)
qed








section \<open>Status updates\<close>

lemma statusBody_parse:
  "updateStatusSchema_parse (statusBody st pst) = Inr \<lparr>d_status = st, d_paymentStatus = pst\<rparr>"
  by (cases st; cases pst; (cases "the st")?; (cases "the pst")?)
     (simp_all add: updateStatusSchema_parse_def statusBody_def zStatus_def zPaymentStatus_def
        issuesOf_def statusName_def paymentStatusName_def)

lemma find_updateOne_replace:
  assumes "find P xs = Some x" and "P y"
  shows "fst (updateOne P (\<lambda>_. y) xs) = 1 \<and> find P (snd (updateOne P (\<lambda>_. y) xs)) = Some y"
  using assms(1)
proof (induction xs)
  case Nil
  then show ?case by simp
next
  case (Cons d ds)
  then show ?case using assms(2)
    by (cases "P d") (auto split: prod.splits)
qed

text \<open>
  Claim C10. For every existing order, whatever its status, payment status and cancelled
  flag, and every administrator's request that selects a status and/or a payment status
  from the enums, the route answers 200 and stores the order with exactly the selected
  values put in place of the old ones and every other field, the cancelled flag included,
  as it was; products and carts are untouched. No transition is refused.
\<close>

theorem updateOrderStatus_permissive:
  assumes "Order_findById (orders store) i = Some ord" and "u_role usr = ''admin''"
  shows "\<exists>store'.
           patchOrderStatus store usr i (statusBody st pst) =
             (store', Sent (Response 200 (OrderBody
                (ord\<lparr>o_status := (case st of None \<Rightarrow> o_status ord | Some s \<Rightarrow> s),
                     o_paymentStatus :=
                       (case pst of None \<Rightarrow> o_paymentStatus ord | Some s \<Rightarrow> s)\<rparr>)))) \<and>
           Order_findById (orders store') i =
             Some (ord\<lparr>o_status := (case st of None \<Rightarrow> o_status ord | Some s \<Rightarrow> s),
                       o_paymentStatus :=
                         (case pst of None \<Rightarrow> o_paymentStatus ord | Some s \<Rightarrow> s)\<rparr>) \<and>
           products store' = products store \<and> carts store' = carts store \<and>
           categories store' = categories store"
proof -
  let ?ord' = "ord\<lparr>o_status := (case st of None \<Rightarrow> o_status ord | Some s \<Rightarrow> s),
                     o_paymentStatus :=
                       (case pst of None \<Rightarrow> o_paymentStatus ord | Some s \<Rightarrow> s)\<rparr>"
  have oid: "o_id ord = i"
    using assms(1) by (auto simp: Order_findById_def find_Some_iff)
  have ord2: "(case pst of Some s \<Rightarrow> (case st of Some s \<Rightarrow> ord\<lparr>o_status := s\<rparr>
                            | None \<Rightarrow> ord)\<lparr>o_paymentStatus := s\<rparr>
               | None \<Rightarrow> (case st of Some s \<Rightarrow> ord\<lparr>o_status := s\<rparr> | None \<Rightarrow> ord)) = ?ord'"
    by (cases st; cases pst) simp_all
  obtain n os' where u: "updateOne (\<lambda>d. o_id d = i) (\<lambda>_. ?ord') (orders store) = (n, os')"
    by (cases "updateOne (\<lambda>d. o_id d = i) (\<lambda>_. ?ord') (orders store)")
  from find_updateOne_replace[of "\<lambda>d. o_id d = i" "orders store" ord ?ord'] assms(1) oid u
  have n: "n = 1" and f: "find (\<lambda>d. o_id d = i) os' = Some ?ord'"
    by (simp_all add: Order_findById_def)
  have sv: "Order_save ?ord' (orders store) = Inr os'"
    using u n oid by (simp add: Order_save_def)
  have "patchOrderStatus store usr i (statusBody st pst) =
      (store\<lparr>orders := os'\<rparr>, Sent (Response 200 (OrderBody ?ord')))"
    using assms sv
    by (simp add: patchOrderStatus_def requireAdmin_def updateOrderStatus_def statusBody_parse
          Let_def ord2)
  with f show ?thesis
    by (intro exI[of _ "store\<lparr>orders := os'\<rparr>"]) (simp add: Order_findById_def)
qed

theorem updateOrderStatus_permissive_witness:
  "Order_findById (orders shopCancelled) ''o1''
     = Some (orderA\<lparr>o_cancelled := True, o_cancelledAt := Some 1700000000000\<rparr>) \<and>
   u_role admin = ''admin'' \<and>
   patchOrderStatus shopCancelled admin ''o1''
       (JObj [(''status'', JStr ''shipped''), (''paymentStatus'', JStr ''paid'')])
     = (shopCancelled\<lparr>orders :=
          [orderA\<lparr>o_cancelled := True, o_cancelledAt := Some 1700000000000,
                  o_status := Shipped, o_paymentStatus := PaymentPaid\<rparr>]\<rparr>,
        Sent (Response 200 (OrderBody
          (orderA\<lparr>o_cancelled := True, o_cancelledAt := Some 1700000000000,
                  o_status := Shipped, o_paymentStatus := PaymentPaid\<rparr>)))) \<and>
   (\<exists>store'.
      patchOrderStatus shopCancelled admin ''o1'' (statusBody (Some Shipped) (Some PaymentPaid)) =
        (store', Sent (Response 200 (OrderBody
           (orderA\<lparr>o_cancelled := True, o_cancelledAt := Some 1700000000000,
                   o_status := Shipped, o_paymentStatus := PaymentPaid\<rparr>)))) \<and>
      products store' = products shopCancelled)"
proof -
  have h1: "Order_findById (orders shopCancelled) ''o1''
     = Some (orderA\<lparr>o_cancelled := True, o_cancelledAt := Some 1700000000000\<rparr>)"
    by code_simp
  have h2: "u_role admin = ''admin''" by code_simp
  have h3: "patchOrderStatus shopCancelled admin ''o1''
       (JObj [(''status'', JStr ''shipped''), (''paymentStatus'', JStr ''paid'')])
     = (shopCancelled\<lparr>orders :=
          [orderA\<lparr>o_cancelled := True, o_cancelledAt := Some 1700000000000,
                  o_status := Shipped, o_paymentStatus := PaymentPaid\<rparr>]\<rparr>,
        Sent (Response 200 (OrderBody
          (orderA\<lparr>o_cancelled := True, o_cancelledAt := Some 1700000000000,
                  o_status := Shipped, o_paymentStatus := PaymentPaid\<rparr>))))"
    by code_simp
  have e: "(orderA\<lparr>o_cancelled := True, o_cancelledAt := Some 1700000000000\<rparr>)
      \<lparr>o_status := (case Some Shipped of None \<Rightarrow>
           o_status (orderA\<lparr>o_cancelled := True, o_cancelledAt := Some 1700000000000\<rparr>)
         | Some s \<Rightarrow> s),
       o_paymentStatus := (case Some PaymentPaid of None \<Rightarrow>
           o_paymentStatus (orderA\<lparr>o_cancelled := True, o_cancelledAt := Some 1700000000000\<rparr>)
         | Some s \<Rightarrow> s)\<rparr>
     = orderA\<lparr>o_cancelled := True, o_cancelledAt := Some 1700000000000,
                   o_status := Shipped, o_paymentStatus := PaymentPaid\<rparr>"
    by simp
  from updateOrderStatus_permissive[OF h1 h2, of "Some Shipped" "Some PaymentPaid", unfolded e]
  have r: "\<exists>store'.
      patchOrderStatus shopCancelled admin ''o1'' (statusBody (Some Shipped) (Some PaymentPaid)) =
        (store', Sent (Response 200 (OrderBody
           (orderA\<lparr>o_cancelled := True, o_cancelledAt := Some 1700000000000,
                   o_status := Shipped, o_paymentStatus := PaymentPaid\<rparr>)))) \<and>
      products store' = products shopCancelled"
    by blast
  show ?thesis
    by (intro conjI h1 h2 h3 r)
qed

section \<open>Malformed request bodies\<close>






section \<open>Price immutability\<close>

lemma updateProduct_frame:
  assumes "updateProduct toSlug store slug data = Some (store', out)"
  shows "orders store' = orders store \<and> carts store' = carts store \<and>
         categories store' = categories store"
proof (cases "find (\<lambda>p. p_slug p = slug) (products store)")
  case None
  with assms show ?thesis by (simp add: updateProduct_def)
next
  case (Some current)
  with assms show ?thesis
    unfolding updateProduct_def Let_def
    by (auto split: option.splits sum.splits if_splits prod.splits)
qed

lemma createOrder_at_owner:
  assumes "createOrder_at view store fl newId usr reqBody
             = (store', Sent (Response 201 (OrderBody ord)))"
  shows "o_user ord = u_id usr \<and> o_id ord = newId \<and> orders store' = orders store @ [ord] \<and>
         Order_findById (orders store) newId = None"
proof -
  from createOrder_at_cases[OF assms] buildSnapshot_rejects
  obtain body c s0 snap where
    tr: "createOrder_try fl store c (populate (products view) c)
                (orderDraft newId usr body s0 snap) = Inr store'"
    and ord: "ord = orderDraft newId usr body s0 snap"
    by (elim disjE exE conjE) fastforce+
  from createOrder_try_Inr[OF tr] obtain ps os cs where
    cre: "Order_create ord (orders store) = Inr os"
    and st: "store' = store\<lparr>products := ps, orders := os, carts := cs\<rparr>"
    unfolding ord by blast
  from Order_create_Inr[OF cre] st show ?thesis
    by (simp add: ord orderDraft_sel)
qed

text \<open>
  Claim C7. Whenever \<^verbatim>\<open>updateProduct\<close> returns, whatever it changed in the product
  (its price included), the orders collection is exactly as before, so every order keeps
  its per-line prices, line totals, subtotal and grand total, and \<^verbatim>\<open>getOrder\<close> answers
  as before: it reads the stored snapshot and never the products. In particular the owner
  who reads an order after a later product update gets the order exactly as
  \<^verbatim>\<open>createOrder\<close> returned it. An update that asks for no new slug, such as a plain
  price change, always returns.
\<close>

theorem price_immutability:
  "(updateProduct toSlug store slug data = Some (store', out) \<longrightarrow>
      orders store' = orders store \<and>
      (\<forall>usr i. getOrder store' usr i = getOrder store usr i)) \<and>
   (createOrder store0 fl newId usr reqBody = (store, Sent (Response 201 (OrderBody ord))) \<and>
    updateProduct toSlug store slug data = Some (store', out) \<longrightarrow>
      getOrder store' usr newId = Response 200 (OrderBody ord)) \<and>
   (\<not> truthy (ud_slug data) \<and>
    (ud_regenerateSlug data \<noteq> Some True \<or> \<not> truthy (ud_title data)) \<longrightarrow>
      updateProduct toSlug store slug data \<noteq> None)"
proof (intro conjI impI allI)
  assume "\<not> truthy (ud_slug data) \<and>
    (ud_regenerateSlug data \<noteq> Some True \<or> \<not> truthy (ud_title data))"
  then show "updateProduct toSlug store slug data \<noteq> None"
    unfolding updateProduct_def Let_def
    by (auto split: option.splits sum.splits prod.splits)
next
  assume u: "updateProduct toSlug store slug data = Some (store', out)"
  from updateProduct_frame[OF u] show o: "orders store' = orders store" by simp
  fix usr i
  show "getOrder store' usr i = getOrder store usr i"
    by (simp add: getOrder_def o)
next
  assume asm: "createOrder store0 fl newId usr reqBody
        = (store, Sent (Response 201 (OrderBody ord))) \<and>
    updateProduct toSlug store slug data = Some (store', out)"
  then have run: "createOrder_at store0 store0 fl newId usr reqBody
        = (store, Sent (Response 201 (OrderBody ord)))"
    by (simp add: createOrder_def)
  from createOrder_at_owner[OF run]
  have own: "o_user ord = u_id usr" and oid: "o_id ord = newId"
    and os: "orders store = orders store0 @ [ord]"
    and fresh: "Order_findById (orders store0) newId = None"
    by simp_all
  have "Order_findById (orders store) newId = Some ord"
    using fresh oid by (simp add: os Order_findById_def find_snoc_fresh)
  moreover from asm updateProduct_frame have "orders store' = orders store" by blast
  ultimately show "getOrder store' usr newId = Response 200 (OrderBody ord)"
    using own by (simp add: getOrder_def)
qed

theorem price_immutability_witness:
  "createOrder shopA no_faults ''o1'' alice (JObj [])
     = (shopA', Sent (Response 201 (OrderBody orderA))) \<and>
   updateProduct (\<lambda>s. s) shopA' ''product-a'' priceUpdate
     = Some (shopA'\<lparr>products := [productA\<lparr>p_stock := 3, p_price := 99\<rparr>]\<rparr>,
        Sent (Response 200 (ItemBody (Some (productA\<lparr>p_stock := 3, p_price := 99\<rparr>))))) \<and>
   getOrder (shopA'\<lparr>products := [productA\<lparr>p_stock := 3, p_price := 99\<rparr>]\<rparr>) alice ''o1''
     = Response 200 (OrderBody orderA) \<and>
   map oi_price (o_items orderA) = [10] \<and> o_grandTotal orderA = 20 \<and>
   \<not> truthy (ud_slug priceUpdate) \<and> ud_regenerateSlug priceUpdate \<noteq> Some True"
proof -
  have h4: "\<not> truthy (ud_slug priceUpdate)" "ud_regenerateSlug priceUpdate \<noteq> Some True"
    by code_simp+
  have h1: "createOrder shopA no_faults ''o1'' alice (JObj [])
     = (shopA', Sent (Response 201 (OrderBody orderA)))"
    by code_simp
  have h2: "updateProduct (\<lambda>s. s) shopA' ''product-a'' priceUpdate
     = Some (shopA'\<lparr>products := [productA\<lparr>p_stock := 3, p_price := 99\<rparr>]\<rparr>,
        Sent (Response 200 (ItemBody (Some (productA\<lparr>p_stock := 3, p_price := 99\<rparr>)))))"
    by code_simp
  have h3: "map oi_price (o_items orderA) = [10]" "o_grandTotal orderA = 20"
    by code_simp+
  note r = price_immutability[THEN conjunct2, THEN conjunct1, THEN mp, OF conjI[OF h1 h2]]
  show ?thesis
    by (intro conjI h1 h2 r h3 h4)
qed

section \<open>No oversell\<close>

lemma decrementStock_nonneg:
  "decrementStock fl k its ps = Inr ps' \<Longrightarrow> list_all (\<lambda>d. 0 \<le> p_stock d) ps \<Longrightarrow>
     list_all (\<lambda>d. 0 \<le> p_stock d) ps'"
proof (induction its arbitrary: k ps)
  case Nil
  then show ?case by simp
next
  case (Cons l its)
  from Cons.prems(1) obtain p q where l: "l = (Some p, q)"
    by (cases l; cases "fst l") auto
  let ?ps1 = "snd (updateOne (\<lambda>d. p_id d = p_id p \<and> q \<le> p_stock d)
            (\<lambda>d. d\<lparr>p_stock := p_stock d - q\<rparr>) ps)"
  from decrementStock_step[OF Cons.prems(1)[unfolded l]]
  have rec: "decrementStock fl (Suc k) its ?ps1 = Inr ps'" by blast
  have "list_all (\<lambda>d. 0 \<le> p_stock d) ?ps1"
    by (rule updateOne_all[OF Cons.prems(2)]) simp
  from Cons.IH[OF rec this] show ?case .
qed

lemma decrementStock_Some:
  "decrementStock fl k ((Some p, q) # its) ps =
     (case updateOne_fault fl k of
        Some m \<Rightarrow> Inl m
      | None \<Rightarrow>
          if fst (updateOne (\<lambda>d. p_id d = p_id p \<and> q \<le> p_stock d)
                   (\<lambda>d. d\<lparr>p_stock := p_stock d - q\<rparr>) ps) \<noteq> 1
          then Inl (''Stock update failed for '' @ p_slug p)
          else decrementStock fl (Suc k) its
                 (snd (updateOne (\<lambda>d. p_id d = p_id p \<and> q \<le> p_stock d)
                   (\<lambda>d. d\<lparr>p_stock := p_stock d - q\<rparr>) ps)))"
  by (simp split: option.splits prod.splits)

lemma decrementStock_conflict:
  assumes "decrementStock fl k pre ps = Inr ps1"
    and "updateOne_fault fl (k + length pre) = None"
    and "\<not> (\<exists>d\<in>set ps1. p_id d = p_id p \<and> q \<le> p_stock d)"
  shows "decrementStock fl k (pre @ (Some p, q) # post) ps
           = Inl (''Stock update failed for '' @ p_slug p)"
  using assms(1,2)
proof (induction pre arbitrary: k ps)
  case Nil
  then have "ps1 = ps" by simp
  with assms(3) have "fst (updateOne (\<lambda>d. p_id d = p_id p \<and> q \<le> p_stock d)
            (\<lambda>d. d\<lparr>p_stock := p_stock d - q\<rparr>) ps) = 0"
    by (simp add: updateOne_count)
  with Nil show ?case by (simp add: decrementStock_Some del: decrementStock.simps)
next
  case (Cons l pre)
  from Cons.prems(1) obtain p' q' where l: "l = (Some p', q')"
    by (cases l; cases "fst l") auto
  let ?u = "updateOne (\<lambda>d. p_id d = p_id p' \<and> q' \<le> p_stock d)
            (\<lambda>d. d\<lparr>p_stock := p_stock d - q'\<rparr>) ps"
  from decrementStock_step[OF Cons.prems(1)[unfolded l]]
  have cnt: "fst ?u = 1" and rec: "decrementStock fl (Suc k) pre (snd ?u) = Inr ps1"
    by blast+
  from Cons.prems(1) have nf: "updateOne_fault fl k = None"
    unfolding l by (simp split: option.splits)
  from Cons.prems(2) have "updateOne_fault fl (Suc k + length pre) = None" by simp
  from Cons.IH[OF rec this]
  have "decrementStock fl (Suc k) (pre @ (Some p, q) # post) (snd ?u)
          = Inl (''Stock update failed for '' @ p_slug p)" .
  with cnt nf show ?case
    unfolding l by (simp add: decrementStock_Some del: decrementStock.simps)
qed

lemma soldOf_not_created:
  "(\<And>ord. out \<noteq> Sent (Response 201 (OrderBody ord))) \<Longrightarrow> soldOf i out = 0"
  unfolding soldOf_def
  by (cases out) (auto split: response.splits body.splits)

lemma createOrder_at_products:
  assumes run: "createOrder_at view store fl newId usr reqBody = (store', out)"
    and dp: "distinct (map p_id (products store))"
  shows "products store' =
           map (\<lambda>d. d\<lparr>p_stock := p_stock d - soldOf (p_id d) out\<rparr>) (products store)"
proof (cases "\<exists>ord. out = Sent (Response 201 (OrderBody ord))")
  case True
  then obtain ord where out: "out = Sent (Response 201 (OrderBody ord))" by blast
  from createOrder_at_cases[OF run] buildSnapshot_rejects out
  obtain body c s0 snap where
    built: "buildSnapshot (populate (products view) c) 0 [] = Inr (s0, snap)"
    and tr: "createOrder_try fl store c (populate (products view) c)
                (orderDraft newId usr body s0 snap) = Inr store'"
    and ord: "ord = orderDraft newId usr body s0 snap"
    by (elim disjE exE conjE) fastforce+
  from buildSnapshot_acc[OF built]
  have snap: "list_all2 snapshotOf (populate (products view) c) (o_items ord)"
    by (simp add: ord orderDraft_sel)
  from createOrder_try_Inr[OF tr] obtain ps os cs where
    dec: "decrementStock fl 0 (populate (products view) c) (products store) = Inr ps"
    and st: "store' = store\<lparr>products := ps, orders := os, carts := cs\<rparr>"
    by blast
  from decrementStock_closed[OF dec snap dp] st
  show ?thesis by (simp add: out soldOf_def)
next
  case False
  then have z: "\<And>i. soldOf i out = 0" by (intro soldOf_not_created) blast
  from createOrder_at_cases[OF run] False have "store' = store"
    by (elim disjE exE conjE) auto
  then show ?thesis by (simp add: z)
qed

lemma createOrder_at_nonneg:
  assumes run: "createOrder_at view store fl newId usr reqBody = (store', out)"
    and nn: "list_all (\<lambda>d. 0 \<le> p_stock d) (products store)"
  shows "list_all (\<lambda>d. 0 \<le> p_stock d) (products store')"
  using createOrder_at_cases[OF run]
proof (elim disjE exE conjE)
  fix body c s0 snap
  assume "createOrder_try fl store c (populate (products view) c)
            (orderDraft newId usr body s0 snap) = Inr store'"
  from createOrder_try_Inr[OF this] obtain ps os cs where
    dec: "decrementStock fl 0 (populate (products view) c) (products store) = Inr ps"
    and st: "store' = store\<lparr>products := ps, orders := os, carts := cs\<rparr>"
    by blast
  from decrementStock_nonneg[OF dec nn] st show ?thesis by simp
qed (use nn in simp_all)

lemma createOrder_at_ids:
  assumes "createOrder_at view store fl newId usr reqBody = (store', out)"
  shows "map p_id (products store') = map p_id (products store)"
  using createOrder_at_cases[OF assms]
proof (elim disjE exE conjE)
  fix body c s0 snap
  assume "createOrder_try fl store c (populate (products view) c)
            (orderDraft newId usr body s0 snap) = Inr store'"
  from createOrder_try_Inr[OF this] obtain ps os cs where
    dec: "decrementStock fl 0 (populate (products view) c) (products store) = Inr ps"
    and st: "store' = store\<lparr>products := ps, orders := os, carts := cs\<rparr>"
    by blast
  have "\<And>k its qs. decrementStock fl k its qs = Inr ps \<Longrightarrow> map p_id ps = map p_id qs"
  proof -
    fix k its qs
    show "decrementStock fl k its qs = Inr ps \<Longrightarrow> map p_id ps = map p_id qs"
    proof (induction its arbitrary: k qs)
      case Nil
      then show ?case by simp
    next
      case (Cons l its)
      from Cons.prems obtain p q where l: "l = (Some p, q)"
        by (cases l; cases "fst l") auto
      from decrementStock_step[OF Cons.prems[unfolded l]] Cons.IH
      show ?case by (fastforce simp: updateOne_keys[of _ p_id])
    qed
  qed
  from this[OF dec] st show ?thesis by simp
qed simp_all


lemma soldTotal_Cons: "soldTotal i (out # outs) = soldOf i out + soldTotal i outs"
  by (simp add: soldTotal_def)

lemma checkouts_nonneg:
  "checkouts store atts = (store', outs) \<Longrightarrow>
   list_all (\<lambda>d. 0 \<le> p_stock d) (products store) \<Longrightarrow>
   list_all (\<lambda>d. 0 \<le> p_stock d) (products store')"
proof (induction atts arbitrary: store store' outs)
  case Nil
  then show ?case by simp
next
  case (Cons a atts)
  obtain store1 out where
    s1: "createOrder_at (a_view a) store (a_faults a) (a_newId a) (a_user a) (a_body a)
           = (store1, out)"
    by (cases "createOrder_at (a_view a) store (a_faults a) (a_newId a) (a_user a) (a_body a)")
  obtain store2 outs2 where s2: "checkouts store1 atts = (store2, outs2)"
    by (cases "checkouts store1 atts")
  from Cons.prems(1) s1 s2 have "store' = store2" by simp
  with Cons.IH[OF s2 createOrder_at_nonneg[OF s1 Cons.prems(2)]] show ?case by simp
qed

lemma checkouts_products:
  "checkouts store atts = (store', outs) \<Longrightarrow> distinct (map p_id (products store)) \<Longrightarrow>
   products store' =
     map (\<lambda>d. d\<lparr>p_stock := p_stock d - soldTotal (p_id d) outs\<rparr>) (products store)"
proof (induction atts arbitrary: store store' outs)
  case Nil
  then show ?case by (simp add: soldTotal_def)
next
  case (Cons a atts)
  obtain store1 out where
    s1: "createOrder_at (a_view a) store (a_faults a) (a_newId a) (a_user a) (a_body a)
           = (store1, out)"
    by (cases "createOrder_at (a_view a) store (a_faults a) (a_newId a) (a_user a) (a_body a)")
  obtain store2 outs2 where s2: "checkouts store1 atts = (store2, outs2)"
    by (cases "checkouts store1 atts")
  from Cons.prems(1) s1 s2 have eq: "store' = store2" "outs = out # outs2" by simp_all
  have p1: "products store1 =
      map (\<lambda>d. d\<lparr>p_stock := p_stock d - soldOf (p_id d) out\<rparr>) (products store)"
    by (rule createOrder_at_products[OF s1 Cons.prems(2)])
  have d1: "distinct (map p_id (products store1))"
    using Cons.prems(2) by (simp add: createOrder_at_ids[OF s1])
  from Cons.IH[OF s2 d1]
  have "products store2 =
      map (\<lambda>d. d\<lparr>p_stock := p_stock d - soldTotal (p_id d) outs2\<rparr>)
        (map (\<lambda>d. d\<lparr>p_stock := p_stock d - soldOf (p_id d) out\<rparr>) (products store))"
    by (simp only: p1)
  also have "\<dots> =
      map (\<lambda>d. d\<lparr>p_stock := p_stock d - soldTotal (p_id d) (out # outs2)\<rparr>) (products store)"
    unfolding map_map
    by (rule map_cong[OF refl]) (simp add: soldTotal_Cons)
  finally show ?case by (simp add: eq)
qed

text \<open>
  Claim C2. The stock decrement of a cart line is one conditional write: it modifies a
  document exactly when a product with that id has a stock of at least the requested
  quantity, and otherwise leaves the collection as it is and reports zero modified
  documents. When that happens at some line of the transaction, \<^verbatim>\<open>createOrder\<close>
  answers 500 with \<^verbatim>\<open>Stock update failed for\<close> and the slug of that line's product,
  and the store is unchanged. Consequently, over any sequence of checkouts, each with
  its own possibly stale view: stocks that were non-negative stay non-negative, the final
  stock of every product is its initial stock minus the quantities of the orders that
  were created, and these quantities never add up to more than the initial stock.
\<close>

theorem no_oversell:
  "(fst (updateOne (\<lambda>d. p_id d = i \<and> q \<le> p_stock d)
           (\<lambda>d. d\<lparr>p_stock := p_stock d - q\<rparr>) ps) = 1
      \<longleftrightarrow> (\<exists>d\<in>set ps. p_id d = i \<and> q \<le> p_stock d)) \<and>
   (\<not> (\<exists>d\<in>set ps. p_id d = i \<and> q \<le> p_stock d) \<longrightarrow>
      updateOne (\<lambda>d. p_id d = i \<and> q \<le> p_stock d)
        (\<lambda>d. d\<lparr>p_stock := p_stock d - q\<rparr>) ps = (0, ps)) \<and>
   (createOrderSchema_parse reqBody = Inr body \<and>
    Cart_findOne (carts view) (u_id usr) = Some c \<and>
    buildSnapshot (populate (products view) c) 0 [] = Inr (s0, snap) \<and>
    populate (products view) c = pre @ (Some p, n) # post \<and>
    decrementStock fl 0 pre (products store) = Inr ps1 \<and>
    updateOne_fault fl (length pre) = None \<and>
    \<not> (\<exists>d\<in>set ps1. p_id d = p_id p \<and> n \<le> p_stock d) \<longrightarrow>
      createOrder_at view store fl newId usr reqBody
        = (store, Sent (Response 500 (Message (''Stock update failed for '' @ p_slug p))))) \<and>
   (checkouts store atts = (store', outs) \<and>
    list_all (\<lambda>d. 0 \<le> p_stock d) (products store) \<longrightarrow>
      list_all (\<lambda>d. 0 \<le> p_stock d) (products store')) \<and>
   (checkouts store atts = (store', outs) \<and> distinct (map p_id (products store)) \<longrightarrow>
      products store' =
        map (\<lambda>d. d\<lparr>p_stock := p_stock d - soldTotal (p_id d) outs\<rparr>) (products store)) \<and>
   (checkouts store atts = (store', outs) \<and> distinct (map p_id (products store)) \<and>
    list_all (\<lambda>d. 0 \<le> p_stock d) (products store) \<longrightarrow>
      list_all (\<lambda>d. soldTotal (p_id d) outs \<le> p_stock d) (products store))"
proof (intro conjI impI)
  show "fst (updateOne (\<lambda>d. p_id d = i \<and> q \<le> p_stock d)
           (\<lambda>d. d\<lparr>p_stock := p_stock d - q\<rparr>) ps) = 1
      \<longleftrightarrow> (\<exists>d\<in>set ps. p_id d = i \<and> q \<le> p_stock d)"
    by (simp add: updateOne_count)
next
  assume no: "\<not> (\<exists>d\<in>set ps. p_id d = i \<and> q \<le> p_stock d)"
  have "fst (updateOne (\<lambda>d. p_id d = i \<and> q \<le> p_stock d)
           (\<lambda>d. d\<lparr>p_stock := p_stock d - q\<rparr>) ps) = 0"
    using no by (simp add: updateOne_count)
  moreover have "snd (updateOne (\<lambda>d. p_id d = i \<and> q \<le> p_stock d)
           (\<lambda>d. d\<lparr>p_stock := p_stock d - q\<rparr>) ps) = ps"
    by (rule updateOne_unmatched[OF no])
  ultimately show "updateOne (\<lambda>d. p_id d = i \<and> q \<le> p_stock d)
        (\<lambda>d. d\<lparr>p_stock := p_stock d - q\<rparr>) ps = (0, ps)"
    by (simp add: prod_eq_iff)
next
  assume asm: "createOrderSchema_parse reqBody = Inr body \<and>
    Cart_findOne (carts view) (u_id usr) = Some c \<and>
    buildSnapshot (populate (products view) c) 0 [] = Inr (s0, snap) \<and>
    populate (products view) c = pre @ (Some p, n) # post \<and>
    decrementStock fl 0 pre (products store) = Inr ps1 \<and>
    updateOne_fault fl (length pre) = None \<and>
    \<not> (\<exists>d\<in>set ps1. p_id d = p_id p \<and> n \<le> p_stock d)"
  then have ne: "cart_items c \<noteq> []" by (auto simp: populate_def)
  from asm decrementStock_conflict[of fl 0 pre "products store" ps1 p n post]
  have "decrementStock fl 0 (populate (products view) c) (products store)
          = Inl (''Stock update failed for '' @ p_slug p)"
    by simp
  then have "createOrder_try fl store c (populate (products view) c)
               (orderDraft newId usr body s0 snap)
          = Inl (''Stock update failed for '' @ p_slug p)"
    by (simp add: createOrder_try_def)
  moreover from asm have "createOrderSchema_parse reqBody = Inr body"
    "Cart_findOne (carts view) (u_id usr) = Some c"
    "buildSnapshot (populate (products view) c) 0 [] = Inr (s0, snap)"
    by blast+
  ultimately show "createOrder_at view store fl newId usr reqBody
        = (store, Sent (Response 500 (Message (''Stock update failed for '' @ p_slug p))))"
    using ne by (simp add: createOrder_at_def Let_def)
next
  assume "checkouts store atts = (store', outs) \<and>
    list_all (\<lambda>d. 0 \<le> p_stock d) (products store)"
  then show "list_all (\<lambda>d. 0 \<le> p_stock d) (products store')"
    using checkouts_nonneg by blast
next
  assume "checkouts store atts = (store', outs) \<and> distinct (map p_id (products store))"
  then show "products store' =
        map (\<lambda>d. d\<lparr>p_stock := p_stock d - soldTotal (p_id d) outs\<rparr>) (products store)"
    using checkouts_products by blast
next
  assume asm: "checkouts store atts = (store', outs) \<and> distinct (map p_id (products store)) \<and>
    list_all (\<lambda>d. 0 \<le> p_stock d) (products store)"
  then have nn: "list_all (\<lambda>d. 0 \<le> p_stock d) (products store')"
    using checkouts_nonneg by blast
  from asm checkouts_products have "products store' =
        map (\<lambda>d. d\<lparr>p_stock := p_stock d - soldTotal (p_id d) outs\<rparr>) (products store)"
    by blast
  with nn have "list_all (\<lambda>d. 0 \<le> p_stock d)
      (map (\<lambda>d. d\<lparr>p_stock := p_stock d - soldTotal (p_id d) outs\<rparr>) (products store))"
    by simp
  then show "list_all (\<lambda>d. soldTotal (p_id d) outs \<le> p_stock d) (products store)"
    by (simp add: list_all_iff)
qed


theorem no_oversell_witness:
  "createOrderSchema_parse (JObj []) = Inr \<lparr>b_shippingAddress = None, b_paymentMethod = None\<rparr> \<and>
   Cart_findOne (carts shopRace) (u_id bob) = Some cartBob \<and>
   populate (products shopRace) cartBob = [] @ (Some productL, 1) # [] \<and>
   map p_stock (products shopRace1) = [0] \<and>
   createOrder_at shopRace shopRace1 no_faults ''o2'' bob (JObj [])
     = (shopRace1, Sent (Response 500 (Message ''Stock update failed for last-unit''))) \<and>
   list_all (\<lambda>d. 0 \<le> p_stock d) (products shopRace) \<and>
   distinct (map p_id (products shopRace)) \<and>
   map p_stock (products shopRace) = [1] \<and>
   map p_stock (products (fst (checkouts shopRace raceAttempts))) = [0] \<and>
   soldTotal ''l1'' (snd (checkouts shopRace raceAttempts)) = 1 \<and>
   list_all (\<lambda>d. 0 \<le> p_stock d) (products (fst (checkouts shopRace raceAttempts))) \<and>
   list_all (\<lambda>d. soldTotal (p_id d) (snd (checkouts shopRace raceAttempts)) \<le> p_stock d)
     (products shopRace)"
proof -
  have h1: "createOrderSchema_parse (JObj [])
      = Inr \<lparr>b_shippingAddress = None, b_paymentMethod = None\<rparr>" by code_simp
  have h2: "Cart_findOne (carts shopRace) (u_id bob) = Some cartBob" by code_simp
  have h3: "buildSnapshot (populate (products shopRace) cartBob) 0 [] =
      Inr (7, [\<lparr>oi_product = ''l1'', oi_title = ''Last unit'', oi_slug = ''last-unit'',
                 oi_price = 7, oi_qty = 1, oi_lineTotal = 7\<rparr>])" by code_simp
  have h4: "populate (products shopRace) cartBob = [] @ (Some productL, 1) # []"
    by code_simp
  have h5: "decrementStock no_faults 0 [] (products shopRace1) = Inr (products shopRace1)"
    by simp
  have h6: "updateOne_fault no_faults (length ([] :: populatedItem list)) = None"
    by code_simp
  have h7: "\<not> (\<exists>d\<in>set (products shopRace1). p_id d = p_id productL \<and> 1 \<le> p_stock d)"
    by code_simp
  have h8: "p_slug productL = ''last-unit''" by code_simp
  have s1: "map p_stock (products shopRace1) = [0]" by code_simp
  note t3 = no_oversell[THEN conjunct2, THEN conjunct2, THEN conjunct1, THEN mp,
      OF conjI[OF h1 conjI[OF h2 conjI[OF h3 conjI[OF h4 conjI[OF h5 conjI[OF h6 h7]]]]]],
      of "''o2''"]
  have r3: "createOrder_at shopRace shopRace1 no_faults ''o2'' bob (JObj [])
     = (shopRace1, Sent (Response 500 (Message ''Stock update failed for last-unit'')))"
    using t3 by (simp add: h8)
  have c: "checkouts shopRace raceAttempts
      = (fst (checkouts shopRace raceAttempts), snd (checkouts shopRace raceAttempts))"
    by simp
  have n: "list_all (\<lambda>d. 0 \<le> p_stock d) (products shopRace)" by code_simp
  have d: "distinct (map p_id (products shopRace))" by code_simp
  have s2: "map p_stock (products shopRace) = [1]" by code_simp
  have s3: "map p_stock (products (fst (checkouts shopRace raceAttempts))) = [0]"
    by code_simp
  have s4: "soldTotal ''l1'' (snd (checkouts shopRace raceAttempts)) = 1" by code_simp
  note t4 = no_oversell[THEN conjunct2, THEN conjunct2, THEN conjunct2, THEN conjunct1,
      THEN mp, OF conjI[OF c n]]
  note t6 = no_oversell[THEN conjunct2, THEN conjunct2, THEN conjunct2, THEN conjunct2,
      THEN conjunct2, THEN mp, OF conjI[OF c conjI[OF d n]]]
  show ?thesis
    by (intro conjI h1 h2 h4 s1 r3 n d s2 s3 s4 t4 t6)
qed

end
